theory Spec2Isabelle
  imports Complex_Main
begin

section \<open>JavaScript values, errors and strings\<close>

text \<open>
  A JavaScript number is modelled by its exact rational value, plus the three
  non-finite values. Rounding to binary64 is not modelled: the numbers the
  validation layer handles are only compared with zero and tested for integrality.
\<close>

datatype number = Num rat | NaN | PosInfinity | NegInfinity

text \<open>
  The values that reach the validation layer (TypeScript's \<open>unknown\<close>): what
  \<open>JSON.parse\<close> builds, and \<open>undefined\<close>, which is what reading a missing property
  gives. An object is the list of its own properties in insertion order.
\<close>

datatype jsval =
    JUndefined
  | JNull
  | JBool bool
  | JNum number
  | JStr string
  | JArr "jsval list"
  | JObj "(string \<times> jsval) list"

text \<open>Thrown values: \<open>new Error(message)\<close> and the \<open>SyntaxError\<close> of \<open>JSON.parse\<close>.\<close>

datatype error = Error (error_message: string) | SyntaxError (error_message: string)

definition newline :: char where
  "newline = CHR 0x0A"

text \<open>\<open>Array.prototype.join\<close> on strings.\<close>

fun join :: "string \<Rightarrow> string list \<Rightarrow> string" where
  "join sep [] = []"
| "join sep [x] = x"
| "join sep (x # y # ys) = x @ sep @ join sep (y # ys)"

text \<open>\<open>String(n)\<close> for a non-negative integer: its decimal digits.\<close>

definition digit_char :: "nat \<Rightarrow> char" where
  "digit_char d = ''0123456789'' ! d"

fun show_nat :: "nat \<Rightarrow> string" where
  "show_nat n = (if n < 10 then [digit_char n] else show_nat (n div 10) @ [digit_char (n mod 10)])"

declare show_nat.simps [simp del]

text \<open>JavaScript truthiness of a value and of a number.\<close>

fun truthy_number :: "number \<Rightarrow> bool" where
  "truthy_number (Num r) = (r \<noteq> 0)"
| "truthy_number NaN = False"
| "truthy_number PosInfinity = True"
| "truthy_number NegInfinity = True"

fun truthy :: "jsval \<Rightarrow> bool" where
  "truthy JUndefined = False"
| "truthy JNull = False"
| "truthy (JBool b) = b"
| "truthy (JNum n) = truthy_number n"
| "truthy (JStr s) = (s \<noteq> [])"
| "truthy (JArr xs) = True"
| "truthy (JObj ps) = True"


section \<open>Reading numbers from text\<close>

definition is_digit :: "char \<Rightarrow> bool" where
  "is_digit c = (c \<in> set ''0123456789'')"

definition digit_val :: "char \<Rightarrow> nat" where
  "digit_val c = of_char c - 48"

text \<open>The value of a digit string in a base, most significant digit first.\<close>

fun digits_val :: "nat \<Rightarrow> nat \<Rightarrow> nat list \<Rightarrow> nat" where
  "digits_val base acc [] = acc"
| "digits_val base acc (d # ds) = digits_val base (acc * base + d) ds"

definition decimal_val :: "string \<Rightarrow> nat" where
  "decimal_val ds = digits_val 10 0 (map digit_val ds)"

text \<open>\<open>m \<times> 10^e\<close> for a signed exponent.\<close>

definition scale10 :: "rat \<Rightarrow> bool \<Rightarrow> nat \<Rightarrow> rat" where
  "scale10 m neg e = (if neg then m / 10 ^ e else m * 10 ^ e)"

text \<open>
  An unsigned decimal literal: integer digits, an optional fraction, an optional
  exponent. \<open>strict\<close> is the JSON grammar (no leading zero before another digit, digits
  on both sides of the point); otherwise the grammar of \<open>StrUnsignedDecimalLiteral\<close>,
  which also has \<open>5.\<close> and \<open>.5\<close>.
\<close>

definition exponent_part :: "string \<Rightarrow> (bool \<times> nat) option" where
  "exponent_part s =
     (case s of
        [] \<Rightarrow> Some (False, 0)
      | c # cs \<Rightarrow>
          if c = CHR ''e'' \<or> c = CHR ''E'' then
            (let neg = (cs \<noteq> [] \<and> hd cs = CHR ''-'');
                 ds = (if cs \<noteq> [] \<and> (hd cs = CHR ''-'' \<or> hd cs = CHR ''+'') then tl cs else cs)
             in if ds \<noteq> [] \<and> list_all is_digit ds then Some (neg, decimal_val ds) else None)
          else None)"

definition unsigned_decimal :: "bool \<Rightarrow> string \<Rightarrow> rat option" where
  "unsigned_decimal strict s =
     (let ip = takeWhile is_digit s;
          r1 = dropWhile is_digit s;
          has_point = (r1 \<noteq> [] \<and> hd r1 = CHR ''.'');
          fp = (if has_point then takeWhile is_digit (tl r1) else []);
          r2 = (if has_point then dropWhile is_digit (tl r1) else r1);
          shape_ok =
            (if strict
             then ip \<noteq> [] \<and> (length ip = 1 \<or> hd ip \<noteq> CHR ''0'') \<and> (if has_point then fp \<noteq> [] else True)
             else ip \<noteq> [] \<or> (has_point \<and> fp \<noteq> []))
      in if \<not> shape_ok then None
         else (case exponent_part r2 of
                 None \<Rightarrow> None
               | Some (neg, e) \<Rightarrow>
                   Some (scale10 (of_nat (decimal_val (ip @ fp)) / 10 ^ length fp) neg e)))"

text \<open>A JSON number token: an optional minus sign and a strict decimal literal.\<close>

definition json_number :: "string \<Rightarrow> number option" where
  "json_number s =
     (case s of
        [] \<Rightarrow> None
      | c # cs \<Rightarrow>
          if c = CHR ''-'' then map_option (\<lambda>r. Num (- r)) (unsigned_decimal True cs)
          else map_option Num (unsigned_decimal True s))"

text \<open>
  \<open>Number(s)\<close> on a string (\<open>StringToNumber\<close>): white space is trimmed, the empty
  string is 0, then \<open>Infinity\<close> with an optional sign, a signed decimal literal, or an
  unsigned hexadecimal, octal or binary integer; anything else is \<open>NaN\<close>.
\<close>

definition is_space :: "char \<Rightarrow> bool" where
  "is_space c = (c \<in> {CHR '' '', CHR 0x09, CHR 0x0A, CHR 0x0B, CHR 0x0C, CHR 0x0D})"

definition trim :: "string \<Rightarrow> string" where
  "trim s = rev (dropWhile is_space (rev (dropWhile is_space s)))"

definition hex_val :: "char \<Rightarrow> nat option" where
  "hex_val c =
     (if is_digit c then Some (digit_val c)
      else if c \<in> set ''abcdef'' then Some (of_char c - 87)
      else if c \<in> set ''ABCDEF'' then Some (of_char c - 55)
      else None)"

definition radix_val :: "nat \<Rightarrow> string \<Rightarrow> number" where
  "radix_val base ds =
     (if ds \<noteq> [] \<and> list_all (\<lambda>c. case hex_val c of None \<Rightarrow> False | Some d \<Rightarrow> d < base) ds
      then Num (of_nat (digits_val base 0 (map (\<lambda>c. the (hex_val c)) ds)))
      else NaN)"

definition unsigned_numeric :: "string \<Rightarrow> number" where
  "unsigned_numeric s =
     (if s = ''Infinity'' then PosInfinity
      else (case unsigned_decimal False s of Some r \<Rightarrow> Num r | None \<Rightarrow> NaN))"

definition negate :: "number \<Rightarrow> number" where
  "negate n = (case n of Num r \<Rightarrow> Num (- r) | NaN \<Rightarrow> NaN
               | PosInfinity \<Rightarrow> NegInfinity | NegInfinity \<Rightarrow> PosInfinity)"

definition StringToNumber :: "string \<Rightarrow> number" where
  "StringToNumber str =
     (let s = trim str in
      if s = [] then Num 0
      else if take 2 s \<in> {''0x'', ''0X''} then radix_val 16 (drop 2 s)
      else if take 2 s \<in> {''0o'', ''0O''} then radix_val 8 (drop 2 s)
      else if take 2 s \<in> {''0b'', ''0B''} then radix_val 2 (drop 2 s)
      else if hd s = CHR ''-'' then negate (unsigned_numeric (tl s))
      else if hd s = CHR ''+'' then unsigned_numeric (tl s)
      else unsigned_numeric s)"

text \<open>
  \<open>Number(v)\<close> on any value. An array is first turned into the comma-joined string
  of its elements, an object without conversion methods of its own into
  \<open>[object Object]\<close>.
\<close>

fun ToNumber :: "jsval \<Rightarrow> number" where
  "ToNumber JUndefined = NaN"
| "ToNumber JNull = Num 0"
| "ToNumber (JBool b) = (if b then Num 1 else Num 0)"
| "ToNumber (JNum n) = n"
| "ToNumber (JStr s) = StringToNumber s"
| "ToNumber (JArr []) = Num 0"
| "ToNumber (JArr [JUndefined]) = Num 0"
| "ToNumber (JArr [JNull]) = Num 0"
| "ToNumber (JArr [JBool b]) = NaN"
| "ToNumber (JArr [JObj ps]) = NaN"
| "ToNumber (JArr [x]) = ToNumber x"
| "ToNumber (JArr (x # y # ys)) = NaN"
| "ToNumber (JObj ps) = NaN"

text \<open>
  \<open>String(v)\<close>, the conversion \<open>JSON.parse\<close> applies to an argument that is not a
  string. A number is written in decimal, with at most 20 digits after the point; the
  exponent form JavaScript uses from \<open>1e21\<close> on and below \<open>1e-6\<close> is not modelled. An
  array is the comma-joined text of its elements, with nothing for \<open>null\<close> and
  \<open>undefined\<close>; an object without conversion methods of its own is
  \<open>[object Object]\<close>.
\<close>

fun frac_digits :: "nat \<Rightarrow> nat \<Rightarrow> nat \<Rightarrow> string" where
  "frac_digits 0 num den = []"
| "frac_digits (Suc fuel) num den =
     (if num = 0 then []
      else digit_char (num * 10 div den) # frac_digits fuel (num * 10 mod den) den)"

definition rat_text :: "rat \<Rightarrow> string" where
  "rat_text r =
     (let num = nat (fst (quotient_of r)); den = nat (snd (quotient_of r))
      in show_nat (num div den)
         @ (if num mod den = 0 then [] else ''.'' @ frac_digits 20 (num mod den) den))"

definition number_text :: "number \<Rightarrow> string" where
  "number_text n =
     (case n of
        Num r \<Rightarrow> if r < 0 then ''-'' @ rat_text (- r) else rat_text r
      | NaN \<Rightarrow> ''NaN''
      | PosInfinity \<Rightarrow> ''Infinity''
      | NegInfinity \<Rightarrow> ''-Infinity'')"

fun ToString :: "jsval \<Rightarrow> string"
  and elements_text :: "jsval list \<Rightarrow> string list" where
  "ToString JUndefined = ''undefined''"
| "ToString JNull = ''null''"
| "ToString (JBool b) = (if b then ''true'' else ''false'')"
| "ToString (JNum n) = number_text n"
| "ToString (JStr s) = s"
| "ToString (JArr xs) = join '','' (elements_text xs)"
| "ToString (JObj ps) = ''[object Object]''"
| "elements_text [] = []"
| "elements_text (x # xs) =
     (if x = JUndefined \<or> x = JNull then [] else ToString x) # elements_text xs"


section \<open>A model of \<open>JSON.parse\<close>\<close>

text \<open>
  The functions of the validation layer take the host's \<open>JSON.parse\<close> as a parameter
  \<open>JSON_parse\<close>, which returns the parsed value or the \<open>SyntaxError\<close> it throws.
  \<open>ecma_JSON_parse\<close> is a model of the ECMAScript function for concrete inputs: a
  tokenizer followed by a stack machine over the tokens. Strings are byte strings; the
  wording of the error descriptions is the engine's own and only two are told apart
  here. Property names that look like array indices are kept in insertion order.
\<close>

datatype token =
    TLBrace | TRBrace | TLBrack | TRBrack | TColon | TComma
  | TStr string
  | TScalar jsval

datatype bad = UnexpectedToken | UnexpectedEnd

datatype lex_mode =
    Normal
  | InString string
  | InEscape string
  | InUnicode string string
  | InWord string

definition is_json_space :: "char \<Rightarrow> bool" where
  "is_json_space c = (c \<in> {CHR '' '', CHR 0x09, CHR 0x0A, CHR 0x0D})"

definition is_word_char :: "char \<Rightarrow> bool" where
  "is_word_char c =
     (c \<in> set ''+-.0123456789abcdefghijklmnopqrstuvwxyzABCDEFGHIJKLMNOPQRSTUVWXYZ'')"

definition word_token :: "string \<Rightarrow> token option" where
  "word_token w =
     (if w = ''true'' then Some (TScalar (JBool True))
      else if w = ''false'' then Some (TScalar (JBool False))
      else if w = ''null'' then Some (TScalar JNull)
      else map_option (\<lambda>n. TScalar (JNum n)) (json_number w))"

definition escape_char :: "char \<Rightarrow> char option" where
  "escape_char c =
     (if c = CHR 0x22 then Some (CHR 0x22)
      else if c = CHR 0x5C then Some (CHR 0x5C)
      else if c = CHR ''/'' then Some (CHR ''/'')
      else if c = CHR ''b'' then Some (CHR 0x08)
      else if c = CHR ''f'' then Some (CHR 0x0C)
      else if c = CHR ''n'' then Some (CHR 0x0A)
      else if c = CHR ''r'' then Some (CHR 0x0D)
      else if c = CHR ''t'' then Some (CHR 0x09)
      else None)"

text \<open>The bytes (UTF-8) of the code unit written \<open>\uXXXX\<close>.\<close>

definition code_unit_chars :: "nat \<Rightarrow> string" where
  "code_unit_chars n =
     (if n < 128 then [char_of n]
      else if n < 2048 then [char_of (192 + n div 64), char_of (128 + n mod 64)]
      else [char_of (224 + n div 4096), char_of (128 + (n div 64) mod 64), char_of (128 + n mod 64)])"

definition lex_normal :: "token list \<Rightarrow> char \<Rightarrow> (lex_mode \<times> token list) option" where
  "lex_normal toks c =
     (if is_json_space c then Some (Normal, toks)
      else if c = CHR ''{'' then Some (Normal, toks @ [TLBrace])
      else if c = CHR ''}'' then Some (Normal, toks @ [TRBrace])
      else if c = CHR ''['' then Some (Normal, toks @ [TLBrack])
      else if c = CHR '']'' then Some (Normal, toks @ [TRBrack])
      else if c = CHR '':'' then Some (Normal, toks @ [TColon])
      else if c = CHR '','' then Some (Normal, toks @ [TComma])
      else if c = CHR 0x22 then Some (InString [], toks)
      else if is_word_char c then Some (InWord [c], toks)
      else None)"

fun lex_step :: "lex_mode \<Rightarrow> token list \<Rightarrow> char \<Rightarrow> (lex_mode \<times> token list) option" where
  "lex_step Normal toks c = lex_normal toks c"
| "lex_step (InWord w) toks c =
     (if is_word_char c then Some (InWord (w @ [c]), toks)
      else (case word_token w of
              None \<Rightarrow> None
            | Some t \<Rightarrow> lex_normal (toks @ [t]) c))"
| "lex_step (InString acc) toks c =
     (if c = CHR 0x22 then Some (Normal, toks @ [TStr acc])
      else if c = CHR 0x5C then Some (InEscape acc, toks)
      else if (of_char c :: nat) < 32 then None
      else Some (InString (acc @ [c]), toks))"
| "lex_step (InEscape acc) toks c =
     (if c = CHR ''u'' then Some (InUnicode acc [], toks)
      else (case escape_char c of
              None \<Rightarrow> None
            | Some e \<Rightarrow> Some (InString (acc @ [e]), toks)))"
| "lex_step (InUnicode acc ds) toks c =
     (case hex_val c of
        None \<Rightarrow> None
      | Some d \<Rightarrow>
          if length ds = 3
          then Some (InString (acc @ code_unit_chars (digits_val 16 0 (map (\<lambda>h. the (hex_val h)) (ds @ [c])))), toks)
          else Some (InUnicode acc (ds @ [c]), toks))"

fun lex :: "lex_mode \<Rightarrow> token list \<Rightarrow> string \<Rightarrow> bad + token list" where
  "lex Normal toks [] = Inr toks"
| "lex (InWord w) toks [] =
     (case word_token w of None \<Rightarrow> Inl UnexpectedToken | Some t \<Rightarrow> Inr (toks @ [t]))"
| "lex mode toks [] = Inl UnexpectedEnd"
| "lex mode toks (c # cs) =
     (case lex_step mode toks c of
        None \<Rightarrow> Inl UnexpectedToken
      | Some (mode', toks') \<Rightarrow> lex mode' toks' cs)"

text \<open>
  The stack machine. A frame is an array or an object under construction (an object
  with the property name that awaits its value); \<open>expect\<close> says what may come next.
  A repeated property name keeps its first position and takes the last value.
\<close>

datatype frame = FArr "jsval list" | FObj "(string \<times> jsval) list" "string option"

datatype expect =
    ExpValue | ExpValueOrEnd | ExpKeyOrEnd | ExpKey | ExpColon | ExpCommaOrEnd
  | Done jsval

fun set_prop :: "string \<Rightarrow> jsval \<Rightarrow> (string \<times> jsval) list \<Rightarrow> (string \<times> jsval) list" where
  "set_prop k v [] = [(k, v)]"
| "set_prop k v ((k', v') # ps) = (if k = k' then (k, v) # ps else (k', v') # set_prop k v ps)"

fun push_value :: "jsval \<Rightarrow> frame list \<Rightarrow> (expect \<times> frame list) option" where
  "push_value v [] = Some (Done v, [])"
| "push_value v (FArr xs # st) = Some (ExpCommaOrEnd, FArr (xs @ [v]) # st)"
| "push_value v (FObj ps (Some k) # st) = Some (ExpCommaOrEnd, FObj (set_prop k v ps) None # st)"
| "push_value v (FObj ps None # st) = None"

definition begin_value :: "token \<Rightarrow> frame list \<Rightarrow> (expect \<times> frame list) option" where
  "begin_value t st =
     (case t of
        TLBrack \<Rightarrow> Some (ExpValueOrEnd, FArr [] # st)
      | TLBrace \<Rightarrow> Some (ExpKeyOrEnd, FObj [] None # st)
      | TStr s \<Rightarrow> push_value (JStr s) st
      | TScalar v \<Rightarrow> push_value v st
      | _ \<Rightarrow> None)"

definition end_container :: "token \<Rightarrow> frame list \<Rightarrow> (expect \<times> frame list) option" where
  "end_container t st =
     (case (t, st) of
        (TRBrack, FArr xs # st') \<Rightarrow> push_value (JArr xs) st'
      | (TRBrace, FObj ps None # st') \<Rightarrow> push_value (JObj ps) st'
      | _ \<Rightarrow> None)"

definition begin_key :: "token \<Rightarrow> frame list \<Rightarrow> (expect \<times> frame list) option" where
  "begin_key t st =
     (case (t, st) of
        (TStr k, FObj ps None # st') \<Rightarrow> Some (ExpColon, FObj ps (Some k) # st')
      | _ \<Rightarrow> None)"

fun parse_step :: "expect \<Rightarrow> frame list \<Rightarrow> token \<Rightarrow> (expect \<times> frame list) option" where
  "parse_step ExpValue st t = begin_value t st"
| "parse_step ExpValueOrEnd st t = (if t = TRBrack then end_container t st else begin_value t st)"
| "parse_step ExpKeyOrEnd st t = (if t = TRBrace then end_container t st else begin_key t st)"
| "parse_step ExpKey st t = begin_key t st"
| "parse_step ExpColon st t = (if t = TColon then Some (ExpValue, st) else None)"
| "parse_step ExpCommaOrEnd st t =
     (if t = TComma
      then (case st of
              FArr xs # st' \<Rightarrow> Some (ExpValue, st)
            | FObj ps None # st' \<Rightarrow> Some (ExpKey, st)
            | _ \<Rightarrow> None)
      else end_container t st)"
| "parse_step (Done v) st t = None"

fun parse_tokens :: "expect \<Rightarrow> frame list \<Rightarrow> token list \<Rightarrow> bad + jsval" where
  "parse_tokens (Done v) st [] = Inr v"
| "parse_tokens e st [] = Inl UnexpectedEnd"
| "parse_tokens e st (t # ts) =
     (case parse_step e st t of
        None \<Rightarrow> Inl UnexpectedToken
      | Some (e', st') \<Rightarrow> parse_tokens e' st' ts)"

definition bad_description :: "bad \<Rightarrow> string" where
  "bad_description b =
     (case b of
        UnexpectedToken \<Rightarrow> ''Unexpected token in JSON''
      | UnexpectedEnd \<Rightarrow> ''Unexpected end of JSON input'')"

definition ecma_JSON_parse :: "string \<Rightarrow> error + jsval" where
  "ecma_JSON_parse text =
     (case lex Normal [] text of
        Inl b \<Rightarrow> Inl (SyntaxError (bad_description b))
      | Inr toks \<Rightarrow>
          (case parse_tokens ExpValue [] toks of
             Inl b \<Rightarrow> Inl (SyntaxError (bad_description b))
           | Inr v \<Rightarrow> Inr v))"


section \<open>The schema library\<close>

text \<open>
  A schema is its \<open>safeParse\<close>: from a value to the parsed data or to the list of
  issues, each with the path of the offending part and a message. The combinators
  below are the ones \<open>schemas.ts\<close> uses, with Zod's behaviour: a container collects the
  issues of all its parts, in order, under the part's key or index.
\<close>

datatype segment = Key string | Index nat

datatype issue = Issue (path: "segment list") (message: string)

type_synonym 'a ZodSchema = "jsval \<Rightarrow> issue list + 'a"

definition safeParse :: "'a ZodSchema \<Rightarrow> jsval \<Rightarrow> issue list + 'a" where
  "safeParse schema data = schema data"

fun parsed_type :: "jsval \<Rightarrow> string" where
  "parsed_type JUndefined = ''undefined''"
| "parsed_type JNull = ''null''"
| "parsed_type (JBool b) = ''boolean''"
| "parsed_type (JNum n) = (if n = NaN then ''nan'' else ''number'')"
| "parsed_type (JStr s) = ''string''"
| "parsed_type (JArr xs) = ''array''"
| "parsed_type (JObj ps) = ''object''"

definition invalid_type :: "string \<Rightarrow> jsval \<Rightarrow> issue" where
  "invalid_type expected data =
     Issue [] (if data = JUndefined then ''Required''
               else ''Expected '' @ expected @ '', received '' @ parsed_type data)"

definition under :: "segment \<Rightarrow> issue list + 'a \<Rightarrow> issue list + 'a" where
  "under seg r =
     (case r of
        Inl issues \<Rightarrow> Inl (map (\<lambda>i. Issue (seg # path i) (message i)) issues)
      | Inr v \<Rightarrow> Inr v)"

definition issues_of :: "issue list + 'a \<Rightarrow> issue list" where
  "issues_of r = (case r of Inl issues \<Rightarrow> issues | Inr v \<Rightarrow> [])"

definition z_string :: "jsval ZodSchema" where
  "z_string data = (case data of JStr s \<Rightarrow> Inr data | _ \<Rightarrow> Inl [invalid_type ''string'' data])"

definition z_boolean :: "jsval ZodSchema" where
  "z_boolean data = (case data of JBool b \<Rightarrow> Inr data | _ \<Rightarrow> Inl [invalid_type ''boolean'' data])"

text \<open>
  \<open>z.number()\<close> and \<open>z.coerce.number()\<close> with the checks \<open>.int()\<close> and \<open>.positive()\<close>:
  with coercion the input is replaced by \<open>Number(input)\<close>; \<open>NaN\<close> is not a number for
  the schema; every failed check adds its issue.
\<close>

datatype ZodNumberCheck = CheckInt | CheckPositive

definition isInteger :: "number \<Rightarrow> bool" where
  "isInteger n = (case n of Num r \<Rightarrow> of_int \<lfloor>r\<rfloor> = r | _ \<Rightarrow> False)"

definition greater_than_zero :: "number \<Rightarrow> bool" where
  "greater_than_zero n = (case n of Num r \<Rightarrow> 0 < r | PosInfinity \<Rightarrow> True | _ \<Rightarrow> False)"

definition check_issues :: "number \<Rightarrow> ZodNumberCheck \<Rightarrow> issue list" where
  "check_issues n c =
     (case c of
        CheckInt \<Rightarrow> if isInteger n then [] else [Issue [] ''Expected integer, received float'']
      | CheckPositive \<Rightarrow> if greater_than_zero n then [] else [Issue [] ''Number must be greater than 0''])"

definition ZodNumber :: "bool \<Rightarrow> ZodNumberCheck list \<Rightarrow> jsval ZodSchema" where
  "ZodNumber coerce checks data =
     (let input = (if coerce then JNum (ToNumber data) else data) in
      case input of
        JNum n \<Rightarrow>
          if n = NaN then Inl [invalid_type ''number'' input]
          else (let issues = concat (map (check_issues n) checks)
                in if issues = [] then Inr (JNum n) else Inl issues)
      | _ \<Rightarrow> Inl [invalid_type ''number'' input])"

definition z_number :: "jsval ZodSchema" where
  "z_number = ZodNumber False []"

definition quoted :: "string \<Rightarrow> string" where
  "quoted s = [CHR 0x27] @ s @ [CHR 0x27]"

definition z_enum :: "string list \<Rightarrow> jsval ZodSchema" where
  "z_enum values data =
     (case data of
        JStr s \<Rightarrow>
          if s \<in> set values then Inr data
          else Inl [Issue [] (''Invalid enum value. Expected '' @ join '' | '' (map quoted values)
                              @ '', received '' @ quoted s)]
      | _ \<Rightarrow> Inl [invalid_type (join '' | '' (map quoted values)) data])"

definition z_optional :: "jsval ZodSchema \<Rightarrow> jsval ZodSchema" where
  "z_optional schema data = (if data = JUndefined then Inr JUndefined else schema data)"

definition z_array :: "jsval ZodSchema \<Rightarrow> jsval ZodSchema" where
  "z_array element data =
     (case data of
        JArr xs \<Rightarrow>
          (let results = map (\<lambda>(i, x). under (Index i) (element x)) (enumerate 0 xs)
           in if list_all (\<lambda>r. \<not> isl r) results then Inr (JArr (map projr results))
              else Inl (concat (map issues_of results)))
      | _ \<Rightarrow> Inl [invalid_type ''array'' data])"

text \<open>
  \<open>z.object(shape)\<close>: every key of the shape is parsed, a missing one as \<open>undefined\<close>.
  The result has the keys of the shape that are present or have a defined value, in the
  shape's order; the keys outside the shape are dropped (the default, \<open>Strip\<close>) or
  appended unchanged (\<open>.passthrough()\<close>).
\<close>

datatype UnknownKeys = Strip | Passthrough

definition get_prop :: "(string \<times> jsval) list \<Rightarrow> string \<Rightarrow> jsval" where
  "get_prop ps k = (case map_of ps k of None \<Rightarrow> JUndefined | Some v \<Rightarrow> v)"

definition ZodObject :: "(string \<times> jsval ZodSchema) list \<Rightarrow> UnknownKeys \<Rightarrow> jsval ZodSchema" where
  "ZodObject shape unknownKeys data =
     (case data of
        JObj ps \<Rightarrow>
          (let results = map (\<lambda>(k, schema). (k, under (Key k) (schema (get_prop ps k)))) shape
           in if list_all (\<lambda>(k, r). \<not> isl r) results
              then Inr (JObj
                     (map (\<lambda>(k, r). (k, projr r))
                        (filter (\<lambda>(k, r). k \<noteq> ''__proto__'' \<and> (projr r \<noteq> JUndefined \<or> k \<in> fst ` set ps)) results)
                      @ (if unknownKeys = Passthrough
                         then filter (\<lambda>(k, v). k \<noteq> ''__proto__'' \<and> k \<notin> fst ` set shape) ps
                         else [])))
              else Inl (concat (map (\<lambda>(k, r). issues_of r) results)))
      | _ \<Rightarrow> Inl [invalid_type ''object'' data])"

text \<open>\<open>z.record(z.string(), value)\<close>: property names are strings, so only the values are checked.\<close>

definition z_record :: "jsval ZodSchema \<Rightarrow> jsval ZodSchema" where
  "z_record valueType data =
     (case data of
        JObj ps \<Rightarrow>
          (let results = map (\<lambda>(k, v). (k, under (Key k) (valueType v))) ps
           in if list_all (\<lambda>(k, r). \<not> isl r) results
              then Inr (JObj (map (\<lambda>(k, r). (k, projr r)) (filter (\<lambda>(k, r). k \<noteq> ''__proto__'') results)))
              else Inl (concat (map (\<lambda>(k, r). issues_of r) results)))
      | _ \<Rightarrow> Inl [invalid_type ''object'' data])"

text \<open>
  \<open>z.union(options)\<close>: the first option that accepts wins; when none does, one issue at
  the root. (No option used here can report issues and still return a value.)
\<close>

fun z_union :: "jsval ZodSchema list \<Rightarrow> jsval ZodSchema" where
  "z_union [] data = Inl [Issue [] ''Invalid input'']"
| "z_union (option # options) data =
     (case option data of Inr v \<Rightarrow> Inr v | Inl issues \<Rightarrow> z_union options data)"


section \<open>schemas.ts\<close>

definition CookieSchema :: "jsval ZodSchema" where
  "CookieSchema =
     ZodObject
       [(''name'', z_string),
        (''value'', z_string),
        (''domain'', z_string),
        (''path'', z_string),
        (''expires'', z_optional z_number),
        (''httpOnly'', z_optional z_boolean),
        (''secure'', z_optional z_boolean),
        (''sameSite'', z_optional (z_enum [''Strict'', ''Lax'', ''None''])),
        (''url'', z_optional z_string)]
       Passthrough"

definition CookiesSchema :: "jsval ZodSchema" where
  "CookiesSchema = z_union [z_array CookieSchema, CookieSchema]"

definition HeadersSchema :: "jsval ZodSchema" where
  "HeadersSchema = z_record z_string"

definition AuthSchema :: "jsval ZodSchema" where
  "AuthSchema =
     ZodObject
       [(''username'', z_string),
        (''password'', z_string),
        (''origin'', z_optional z_string),
        (''send'', z_optional (z_enum [''unauthorized'', ''always'']))]
       Strip"

definition FirefoxPrefsSchema :: "jsval ZodSchema" where
  "FirefoxPrefsSchema = z_record (z_union [z_string, z_number, z_boolean])"

definition OverrideHostSchema :: "jsval ZodSchema" where
  "OverrideHostSchema = z_record z_string"

definition StringArraySchema :: "jsval ZodSchema" where
  "StringArraySchema = z_array z_string"

definition PositiveIntSchema :: "jsval ZodSchema" where
  "PositiveIntSchema = ZodNumber True [CheckInt, CheckPositive]"

definition PositiveFloatSchema :: "jsval ZodSchema" where
  "PositiveFloatSchema = ZodNumber True [CheckPositive]"


section \<open>validation.ts\<close>

definition segment_text :: "segment \<Rightarrow> string" where
  "segment_text seg = (case seg of Key k \<Rightarrow> k | Index n \<Rightarrow> show_nat n)"

definition formatZodError :: "issue list \<Rightarrow> string" where
  "formatZodError issues =
     join [newline]
       (map (\<lambda>issue.
               let path = (if length (path issue) > 0
                           then join ''.'' (map segment_text (path issue))
                           else ''(root)'')
               in ''  - '' @ path @ '': '' @ message issue)
          issues)"

text \<open>\<open>JSON.parse\<close> then schema validation. Throws with \<open>flagName\<close> context on failure.\<close>

definition parseCLIOption ::
  "(string \<Rightarrow> error + jsval) \<Rightarrow> string \<Rightarrow> string \<Rightarrow> 'a ZodSchema \<Rightarrow> error + 'a" where
  "parseCLIOption JSON_parse flagName jsonString schema =
     (case JSON_parse jsonString of
        Inl err \<Rightarrow>
          Inl (Error (''Invalid JSON for \"'' @ flagName @ ''\": '' @ error_message err))
      | Inr parsed \<Rightarrow>
          (case safeParse schema parsed of
             Inl issues \<Rightarrow>
               Inl (Error (''Invalid data for \"'' @ flagName @ ''\":'' @ [newline] @ formatZodError issues))
           | Inr data \<Rightarrow> Inr data))"

text \<open>Schema-only validation for already-parsed data.\<close>

definition parseUnknown :: "string \<Rightarrow> jsval \<Rightarrow> 'a ZodSchema \<Rightarrow> error + 'a" where
  "parseUnknown flagName data schema =
     (case safeParse schema data of
        Inl issues \<Rightarrow>
          Inl (Error (''Invalid data for \"'' @ flagName @ ''\":'' @ [newline] @ formatZodError issues))
      | Inr result \<Rightarrow> Inr result)"


section \<open>config.ts\<close>

text \<open>
  Modelled from the spec: \<open>types.ts\<close>, which declares \<open>CLIOptions\<close> and
  \<open>LaunchOptions\<close>, is not under \<open>src/\<close>. The records have the fields that
  \<open>normalizeCLIConfig\<close> reads and writes, typed as the specification's data model and
  the code's use of them say: an optional property is an option, \<open>list\<close> and \<open>zip\<close>
  are \<open>list_flag\<close> and \<open>zip_flag\<close>.

  \<open>config.ts\<close> holds two definitions of \<open>normalizeCLIConfig\<close>, the first at
  lines 21 to 122, the second at lines 166 to 264. A structured option is any value:
  JSON text from the command line, a string here, or an already-typed value from a
  programmatic caller.
\<close>

record CLIOptions =
  url :: string
  browser :: "string option"
  width :: "number option"
  height :: "number option"
  frameRate :: "number option"
  timeout :: "number option"
  blockDomains :: "string list option"
  block :: "string list option"
  disableJS :: "bool option"
  debug :: "bool option"
  html :: "bool option"
  openHtml :: "bool option"
  list_flag :: "bool option"
  connectionType :: "string option"
  zip_flag :: "bool option"
  dry :: "bool option"
  cookies :: "jsval option"
  headers :: "jsval option"
  auth :: "jsval option"
  delay :: "jsval option"
  delayUsing :: "string option"
  firefoxPrefs :: "jsval option"
  overrideHost :: "jsval option"
  flags :: "string list option"
  cpuThrottle :: "number option"
  uploadUrl :: "string option"

record LaunchOptions =
  url :: string
  browser :: string
  width :: number
  height :: number
  frameRate :: number
  timeout :: number
  blockDomains :: "string list"
  block :: "string list"
  disableJS :: bool
  debug :: bool
  html :: bool
  openHtml :: bool
  list_flag :: bool
  connectionType :: jsval
  auth :: jsval
  zip_flag :: bool
  dry :: bool
  delayUsing :: string
  cookies :: "jsval option"
  headers :: "jsval option"
  delay :: "jsval option"
  firefoxPrefs :: "jsval option"
  overrideHost :: "jsval option"
  args :: "string list option"
  cpuThrottle :: "number option"
  uploadUrl :: "string option"

text \<open>Sequencing of steps that may throw: the first error ends the call.\<close>

definition then_do :: "'e + 'a \<Rightarrow> ('a \<Rightarrow> 'e + 'b) \<Rightarrow> 'e + 'b" where
  "then_do r f = (case r of Inl e \<Rightarrow> Inl e | Inr x \<Rightarrow> f x)"

text \<open>\<open>a || b\<close> and \<open>a ?? b\<close> on an optional property.\<close>

definition or_string :: "string option \<Rightarrow> string \<Rightarrow> string" where
  "or_string a b = (case a of Some s \<Rightarrow> if s \<noteq> [] then s else b | None \<Rightarrow> b)"

definition or_bool :: "bool option \<Rightarrow> bool \<Rightarrow> bool" where
  "or_bool a b = (case a of Some x \<Rightarrow> if x then x else b | None \<Rightarrow> b)"

definition or_list :: "'a list option \<Rightarrow> 'a list \<Rightarrow> 'a list" where
  "or_list a b = (case a of Some xs \<Rightarrow> xs | None \<Rightarrow> b)"

definition nullish :: "'a option \<Rightarrow> 'a \<Rightarrow> 'a" where
  "nullish a b = (case a of Some x \<Rightarrow> x | None \<Rightarrow> b)"

text \<open>\<open>String.prototype.split\<close> on a one-character separator.\<close>

fun split_char :: "char \<Rightarrow> string \<Rightarrow> string list" where
  "split_char sep [] = [[]]"
| "split_char sep (c # cs) =
     (if c = sep then [] # split_char sep cs
      else (c # hd (split_char sep cs)) # tl (split_char sep cs))"

text \<open>The elements of a value that passed \<open>StringArraySchema\<close>, as the spread reads them.\<close>

definition string_elements :: "jsval \<Rightarrow> string list" where
  "string_elements v =
     (case v of JArr xs \<Rightarrow> map (\<lambda>x. case x of JStr s \<Rightarrow> s | _ \<Rightarrow> []) xs | _ \<Rightarrow> [])"

text \<open>
  \<open>parseJSONArrayOrCommaSeparatedStrings\<close> (the same in both definitions): the
  \<open>forEach\<close> over \<open>choices\<close> with the list \<open>chosen\<close> it appends to. \<open>JSON.parse\<close> is
  called bare here, so its \<open>SyntaxError\<close> leaves as it is.
\<close>

fun parse_choices ::
  "(string \<Rightarrow> error + jsval) \<Rightarrow> string \<Rightarrow> string list \<Rightarrow> string list \<Rightarrow> error + string list" where
  "parse_choices JSON_parse flagName chosen [] = Inr chosen"
| "parse_choices JSON_parse flagName chosen (opt_group # rest) =
     (if CHR ''['' \<in> set opt_group
      then then_do (JSON_parse opt_group) (\<lambda>parsed.
           then_do (parseUnknown flagName parsed StringArraySchema) (\<lambda>strings.
           parse_choices JSON_parse flagName (chosen @ string_elements strings) rest))
      else parse_choices JSON_parse flagName
             (chosen @ filter (\<lambda>opt. opt \<noteq> []) (split_char CHR '','' opt_group)) rest)"

definition parseJSONArrayOrCommaSeparatedStrings ::
  "(string \<Rightarrow> error + jsval) \<Rightarrow> string \<Rightarrow> string list \<Rightarrow> error + string list" where
  "parseJSONArrayOrCommaSeparatedStrings JSON_parse flagName choices =
     parse_choices JSON_parse flagName [] choices"

text \<open>The object literal both definitions start from.\<close>

definition initial_config :: "LaunchOptions \<Rightarrow> CLIOptions \<Rightarrow> LaunchOptions" where
  "initial_config DEFAULT_OPTIONS options =
     \<lparr> url = CLIOptions.url options,
       browser = or_string (CLIOptions.browser options) (browser DEFAULT_OPTIONS),
       width = nullish (CLIOptions.width options) (width DEFAULT_OPTIONS),
       height = nullish (CLIOptions.height options) (height DEFAULT_OPTIONS),
       frameRate = nullish (CLIOptions.frameRate options) (frameRate DEFAULT_OPTIONS),
       timeout = nullish (CLIOptions.timeout options) (timeout DEFAULT_OPTIONS),
       blockDomains = or_list (CLIOptions.blockDomains options) (blockDomains DEFAULT_OPTIONS),
       block = or_list (CLIOptions.block options) (block DEFAULT_OPTIONS),
       disableJS = or_bool (CLIOptions.disableJS options) (disableJS DEFAULT_OPTIONS),
       debug = or_bool (CLIOptions.debug options) (debug DEFAULT_OPTIONS),
       html = or_bool (CLIOptions.html options) (html DEFAULT_OPTIONS),
       openHtml = or_bool (CLIOptions.openHtml options) (openHtml DEFAULT_OPTIONS),
       list_flag = or_bool (CLIOptions.list_flag options) (list_flag DEFAULT_OPTIONS),
       connectionType =
         (case CLIOptions.connectionType options of
            Some s \<Rightarrow> if s \<noteq> [] then JStr s else connectionType DEFAULT_OPTIONS
          | None \<Rightarrow> connectionType DEFAULT_OPTIONS),
       auth = auth DEFAULT_OPTIONS,
       zip_flag = or_bool (CLIOptions.zip_flag options) (zip_flag DEFAULT_OPTIONS),
       dry = or_bool (CLIOptions.dry options) (dry DEFAULT_OPTIONS),
       delayUsing = delayUsing DEFAULT_OPTIONS,
       cookies = None,
       headers = None,
       delay = None,
       firefoxPrefs = None,
       overrideHost = None,
       args = None,
       cpuThrottle = None,
       uploadUrl = None \<rparr>"

text \<open>
  The statements that follow the literal, one function each, in the order of the source.
  First the ones the two definitions share: \<open>flags\<close>, \<open>cpuThrottle\<close>, \<open>block\<close>,
  \<open>blockDomains\<close> and \<open>uploadUrl\<close>. \<open>URL_ok\<close> says whether \<open>new URL\<close> accepts the text.
\<close>

definition set_args :: "CLIOptions \<Rightarrow> LaunchOptions \<Rightarrow> error + LaunchOptions" where
  "set_args options config =
     (case CLIOptions.flags options of
        Some fs \<Rightarrow> Inr (config\<lparr>args := Some fs\<rparr>)
      | None \<Rightarrow> Inr config)"

definition set_cpuThrottle :: "CLIOptions \<Rightarrow> LaunchOptions \<Rightarrow> error + LaunchOptions" where
  "set_cpuThrottle options config =
     (case CLIOptions.cpuThrottle options of
        Some n \<Rightarrow> if truthy_number n then Inr (config\<lparr>cpuThrottle := Some n\<rparr>) else Inr config
      | None \<Rightarrow> Inr config)"

definition set_block ::
  "(string \<Rightarrow> error + jsval) \<Rightarrow> CLIOptions \<Rightarrow> LaunchOptions \<Rightarrow> error + LaunchOptions" where
  "set_block JSON_parse options config =
     (case CLIOptions.block options of
        Some choices \<Rightarrow>
          (case parseJSONArrayOrCommaSeparatedStrings JSON_parse ''--block'' choices of
             Inl err \<Rightarrow> Inl (Error (''Problem parsing \"--block\" options - '' @ error_message err))
           | Inr chosen \<Rightarrow> Inr (config\<lparr>block := chosen\<rparr>))
      | None \<Rightarrow> Inr config)"

definition set_blockDomains ::
  "(string \<Rightarrow> error + jsval) \<Rightarrow> CLIOptions \<Rightarrow> LaunchOptions \<Rightarrow> error + LaunchOptions" where
  "set_blockDomains JSON_parse options config =
     (case CLIOptions.blockDomains options of
        Some choices \<Rightarrow>
          (case parseJSONArrayOrCommaSeparatedStrings JSON_parse ''--blockDomains'' choices of
             Inl err \<Rightarrow> Inl (Error (''Problem parsing \"--blockDomains\" options - '' @ error_message err))
           | Inr chosen \<Rightarrow> Inr (config\<lparr>blockDomains := chosen\<rparr>))
      | None \<Rightarrow> Inr config)"

definition set_uploadUrl ::
  "(string \<Rightarrow> bool) \<Rightarrow> CLIOptions \<Rightarrow> LaunchOptions \<Rightarrow> error + LaunchOptions" where
  "set_uploadUrl URL_ok options config =
     (case CLIOptions.uploadUrl options of
        Some u \<Rightarrow>
          if u \<noteq> [] then
            (if URL_ok u then Inr (config\<lparr>uploadUrl := Some u\<rparr>)
             else Inl (Error ''--uploadUrl must be a valid URL''))
          else Inr config
      | None \<Rightarrow> Inr config)"

definition shared_tail ::
  "(string \<Rightarrow> error + jsval) \<Rightarrow> (string \<Rightarrow> bool) \<Rightarrow> CLIOptions \<Rightarrow> LaunchOptions
     \<Rightarrow> error + LaunchOptions" where
  "shared_tail JSON_parse URL_ok options config =
     then_do (set_args options config) (\<lambda>config.
     then_do (set_cpuThrottle options config) (\<lambda>config.
     then_do (set_block JSON_parse options config) (\<lambda>config.
     then_do (set_blockDomains JSON_parse options config) (\<lambda>config.
     set_uploadUrl URL_ok options config))))"

text \<open>
  The first definition (lines 21 to 122). The statements for the structured options
  (lines 45 to 75) are \<open>parse_structured\<close>: every truthy option is handed to
  \<open>parseCLIOption\<close>, or for \<open>delay\<close> to \<open>JSON.parse\<close>, whatever its type, and
  \<open>JSON.parse\<close> converts an argument that is not a string to one before it parses.
\<close>

definition parse_field ::
  "(string \<Rightarrow> error + jsval) \<Rightarrow> string \<Rightarrow> jsval option \<Rightarrow> jsval ZodSchema
     \<Rightarrow> (jsval \<Rightarrow> LaunchOptions) \<Rightarrow> LaunchOptions \<Rightarrow> error + LaunchOptions" where
  "parse_field JSON_parse flagName field schema assign config =
     (case field of
        Some given \<Rightarrow>
          if truthy given
          then then_do (parseCLIOption JSON_parse flagName (ToString given) schema)
                 (\<lambda>v. Inr (assign v))
          else Inr config
      | None \<Rightarrow> Inr config)"

definition set_delay ::
  "(string \<Rightarrow> error + jsval) \<Rightarrow> CLIOptions \<Rightarrow> LaunchOptions \<Rightarrow> error + LaunchOptions" where
  "set_delay JSON_parse options config =
     (case CLIOptions.delay options of
        Some given \<Rightarrow>
          if truthy given
          then then_do (JSON_parse (ToString given)) (\<lambda>v. Inr (config\<lparr>delay := Some v\<rparr>))
          else Inr config
      | None \<Rightarrow> Inr config)"

definition set_delayUsing :: "CLIOptions \<Rightarrow> LaunchOptions \<Rightarrow> error + LaunchOptions" where
  "set_delayUsing options config =
     (case CLIOptions.delayUsing options of
        Some d \<Rightarrow>
          if d \<noteq> [] \<and> (d = ''fulfill'' \<or> d = ''continue'')
          then Inr (config\<lparr>delayUsing := d\<rparr>)
          else Inr config
      | None \<Rightarrow> Inr config)"

definition parse_structured ::
  "(string \<Rightarrow> error + jsval) \<Rightarrow> CLIOptions \<Rightarrow> LaunchOptions \<Rightarrow> error + LaunchOptions" where
  "parse_structured JSON_parse options config =
     then_do (parse_field JSON_parse ''--cookies'' (CLIOptions.cookies options) CookiesSchema
                (\<lambda>v. config\<lparr>cookies := Some v\<rparr>) config) (\<lambda>config.
     then_do (parse_field JSON_parse ''--headers'' (CLIOptions.headers options) HeadersSchema
                (\<lambda>v. config\<lparr>headers := Some v\<rparr>) config) (\<lambda>config.
     then_do (parse_field JSON_parse ''--auth'' (CLIOptions.auth options) AuthSchema
                (\<lambda>v. config\<lparr>auth := v\<rparr>) config) (\<lambda>config.
     then_do (set_delay JSON_parse options config) (\<lambda>config.
     then_do (set_delayUsing options config) (\<lambda>config.
     then_do (parse_field JSON_parse ''--firefoxPrefs'' (CLIOptions.firefoxPrefs options) FirefoxPrefsSchema
                (\<lambda>v. config\<lparr>firefoxPrefs := Some v\<rparr>) config) (\<lambda>config.
     parse_field JSON_parse ''--overrideHost'' (CLIOptions.overrideHost options) OverrideHostSchema
       (\<lambda>v. config\<lparr>overrideHost := Some v\<rparr>) config))))))"

definition normalizeCLIConfig ::
  "(string \<Rightarrow> error + jsval) \<Rightarrow> (string \<Rightarrow> bool) \<Rightarrow> LaunchOptions \<Rightarrow> CLIOptions
     \<Rightarrow> error + LaunchOptions" where
  "normalizeCLIConfig JSON_parse URL_ok DEFAULT_OPTIONS options =
     (let config = initial_config DEFAULT_OPTIONS options in
      then_do (parse_structured JSON_parse options config) (\<lambda>config.
      shared_tail JSON_parse URL_ok options config))"

text \<open>
  The second definition (lines 166 to 264): already-parsed options pass through. The
  statements for the structured options (lines 190 to 217) are \<open>pass_structured\<close>.
\<close>

definition pass_field ::
  "jsval option \<Rightarrow> (jsval \<Rightarrow> LaunchOptions) \<Rightarrow> LaunchOptions \<Rightarrow> error + LaunchOptions" where
  "pass_field field assign config =
     (case field of
        Some v \<Rightarrow> if truthy v then Inr (assign v) else Inr config
      | None \<Rightarrow> Inr config)"

definition pass_delayUsing :: "CLIOptions \<Rightarrow> LaunchOptions \<Rightarrow> error + LaunchOptions" where
  "pass_delayUsing options config =
     (case CLIOptions.delayUsing options of
        Some d \<Rightarrow> if d \<noteq> [] then Inr (config\<lparr>delayUsing := d\<rparr>) else Inr config
      | None \<Rightarrow> Inr config)"

definition pass_structured :: "CLIOptions \<Rightarrow> LaunchOptions \<Rightarrow> error + LaunchOptions" where
  "pass_structured options config =
     then_do (pass_field (CLIOptions.cookies options) (\<lambda>v. config\<lparr>cookies := Some v\<rparr>) config) (\<lambda>config.
     then_do (pass_field (CLIOptions.headers options) (\<lambda>v. config\<lparr>headers := Some v\<rparr>) config) (\<lambda>config.
     then_do (pass_field (CLIOptions.auth options) (\<lambda>v. config\<lparr>auth := v\<rparr>) config) (\<lambda>config.
     then_do (pass_field (CLIOptions.delay options) (\<lambda>v. config\<lparr>delay := Some v\<rparr>) config) (\<lambda>config.
     then_do (pass_delayUsing options config) (\<lambda>config.
     then_do (pass_field (CLIOptions.firefoxPrefs options) (\<lambda>v. config\<lparr>firefoxPrefs := Some v\<rparr>) config) (\<lambda>config.
     pass_field (CLIOptions.overrideHost options) (\<lambda>v. config\<lparr>overrideHost := Some v\<rparr>) config))))))"

definition normalizeCLIConfig2 ::
  "(string \<Rightarrow> error + jsval) \<Rightarrow> (string \<Rightarrow> bool) \<Rightarrow> LaunchOptions \<Rightarrow> CLIOptions
     \<Rightarrow> error + LaunchOptions" where
  "normalizeCLIConfig2 JSON_parse URL_ok DEFAULT_OPTIONS options =
     (let config = initial_config DEFAULT_OPTIONS options in
      then_do (pass_structured options config) (\<lambda>config.
      shared_tail JSON_parse URL_ok options config))"

text \<open>
  Options with only the \<open>url\<close>, as in \<open>normalizeCLIConfig({ url })\<close>, to build concrete
  inputs from.
\<close>

definition only_url :: "string \<Rightarrow> CLIOptions" where
  "only_url u =
     \<lparr> CLIOptions.url = u, CLIOptions.browser = None, CLIOptions.width = None, CLIOptions.height = None, CLIOptions.frameRate = None, CLIOptions.timeout = None,
       CLIOptions.blockDomains = None, CLIOptions.block = None, CLIOptions.disableJS = None, CLIOptions.debug = None, CLIOptions.html = None,
       CLIOptions.openHtml = None, CLIOptions.list_flag = None, CLIOptions.connectionType = None, CLIOptions.zip_flag = None, CLIOptions.dry = None,
       CLIOptions.cookies = None, CLIOptions.headers = None, CLIOptions.auth = None, CLIOptions.delay = None, CLIOptions.delayUsing = None,
       CLIOptions.firefoxPrefs = None, CLIOptions.overrideHost = None, CLIOptions.flags = None, CLIOptions.cpuThrottle = None,
       CLIOptions.uploadUrl = None \<rparr>"


text \<open>
  Modelled from the spec: \<open>defaultOptions.ts\<close> is not under \<open>src/\<close>, and the
  normalizers take the table of defaults as the parameter \<open>DEFAULT_OPTIONS\<close>, so the
  theorems about them hold for every table. This one serves to run them on concrete
  inputs. The specification documents the width, 1366, and that \<open>delayUsing\<close> is one
  of \<open>fulfill\<close> and \<open>continue\<close>; the other values are examples.
\<close>

definition sample_defaults :: LaunchOptions where
  "sample_defaults =
     \<lparr> url = [], browser = ''chrome'', width = Num 1366, height = Num 768, frameRate = Num 1,
       timeout = Num 30000, blockDomains = [], block = [], disableJS = False, debug = False,
       html = False, openHtml = False, list_flag = False, connectionType = JBool False,
       auth = JBool False, zip_flag = False, dry = False, delayUsing = ''continue'',
       cookies = None, headers = None, delay = None, firefoxPrefs = None, overrideHost = None,
       args = None, cpuThrottle = None, uploadUrl = None \<rparr>"


text \<open>
  A stand-in for \<open>new URL(text)\<close> on concrete inputs: the text starts with a scheme
  and a colon. The normalizers take the real test as the parameter \<open>URL_ok\<close>.
\<close>

definition is_alpha :: "char \<Rightarrow> bool" where
  "is_alpha c = (c \<in> set ''abcdefghijklmnopqrstuvwxyzABCDEFGHIJKLMNOPQRSTUVWXYZ'')"

definition has_scheme :: "string \<Rightarrow> bool" where
  "has_scheme u =
     (let scheme = takeWhile (\<lambda>c. c \<noteq> CHR '':'') u
      in scheme \<noteq> [] \<and> length scheme < length u \<and> is_alpha (hd scheme)
         \<and> list_all (\<lambda>c. is_alpha c \<or> is_digit c \<or> c \<in> set ''+-.'') scheme)"


section \<open>What each statement of the normalizer computes\<close>

text \<open>
  The value a statement of \<open>normalizeCLIConfig\<close> gives to its field, or the error it
  throws, from the option and the field's value so far. They serve to state what a
  whole call computes.
\<close>

definition field_value ::
  "(string \<Rightarrow> error + jsval) \<Rightarrow> string \<Rightarrow> jsval option \<Rightarrow> jsval ZodSchema
     \<Rightarrow> (jsval \<Rightarrow> 'x) \<Rightarrow> 'x \<Rightarrow> error + 'x" where
  "field_value JSON_parse flagName field schema wrap old =
     (case field of
        Some given \<Rightarrow>
          if truthy given
          then map_sum id wrap (parseCLIOption JSON_parse flagName (ToString given) schema)
          else Inr old
      | None \<Rightarrow> Inr old)"

definition delay_value :: "(string \<Rightarrow> error + jsval) \<Rightarrow> jsval option \<Rightarrow> jsval option \<Rightarrow> error + jsval option" where
  "delay_value JSON_parse field old =
     (case field of
        Some given \<Rightarrow>
          if truthy given then map_sum id Some (JSON_parse (ToString given)) else Inr old
      | None \<Rightarrow> Inr old)"

definition passed_value :: "jsval option \<Rightarrow> (jsval \<Rightarrow> 'x) \<Rightarrow> 'x \<Rightarrow> 'x" where
  "passed_value field wrap old =
     (case field of Some v \<Rightarrow> if truthy v then wrap v else old | None \<Rightarrow> old)"

definition choices_value ::
  "(string \<Rightarrow> error + jsval) \<Rightarrow> string \<Rightarrow> string list option \<Rightarrow> string list \<Rightarrow> error + string list" where
  "choices_value JSON_parse flagName field old =
     (case field of
        Some choices \<Rightarrow>
          (case parseJSONArrayOrCommaSeparatedStrings JSON_parse flagName choices of
             Inl err \<Rightarrow> Inl (Error (''Problem parsing \"'' @ flagName @ ''\" options - '' @ error_message err))
           | Inr chosen \<Rightarrow> Inr chosen)
      | None \<Rightarrow> Inr old)"

definition uploadUrl_value :: "(string \<Rightarrow> bool) \<Rightarrow> string option \<Rightarrow> string option \<Rightarrow> error + string option" where
  "uploadUrl_value URL_ok field old =
     (case field of
        Some u \<Rightarrow>
          if u \<noteq> [] then (if URL_ok u then Inr (Some u) else Inl (Error ''--uploadUrl must be a valid URL''))
          else Inr old
      | None \<Rightarrow> Inr old)"

definition cpuThrottle_value :: "number option \<Rightarrow> number option \<Rightarrow> number option" where
  "cpuThrottle_value field old =
     (case field of Some n \<Rightarrow> if truthy_number n then Some n else old | None \<Rightarrow> old)"

definition args_value :: "string list option \<Rightarrow> string list option \<Rightarrow> string list option" where
  "args_value field old = (case field of Some fs \<Rightarrow> Some fs | None \<Rightarrow> old)"

definition delayUsing_value :: "string option \<Rightarrow> string \<Rightarrow> string" where
  "delayUsing_value field old =
     (case field of
        Some d \<Rightarrow> if d = ''fulfill'' \<or> d = ''continue'' then d else old
      | None \<Rightarrow> old)"

definition delayUsing_passed :: "string option \<Rightarrow> string \<Rightarrow> string" where
  "delayUsing_passed field old = (case field of Some d \<Rightarrow> if d \<noteq> [] then d else old | None \<Rightarrow> old)"


section \<open>The specification's descriptions\<close>

text \<open>
  The line the specification gives for one issue: two spaces and a dash, the path
  joined with dots or \<open>(root)\<close> for the empty path, a colon, the message.
\<close>

definition issue_line :: "issue \<Rightarrow> string" where
  "issue_line i =
     ''  - '' @ (if path i = [] then ''(root)'' else join ''.'' (map segment_text (path i)))
     @ '': '' @ message i"

text \<open>
  What the specification says one entry of \<open>block\<close> or \<open>blockDomains\<close> stands for: with
  a \<open>[\<close> in it, the text parsed as JSON and validated as a list of strings; otherwise
  its comma-separated tokens without the empty ones.
\<close>

definition entry_result ::
  "(string \<Rightarrow> error + jsval) \<Rightarrow> string \<Rightarrow> string \<Rightarrow> error + string list" where
  "entry_result JSON_parse flagName entry =
     (if CHR ''['' \<in> set entry
      then (case JSON_parse entry of
              Inl err \<Rightarrow> Inl err
            | Inr parsed \<Rightarrow>
                (case parseUnknown flagName parsed StringArraySchema of
                   Inl err \<Rightarrow> Inl err
                 | Inr strings \<Rightarrow> Inr (string_elements strings)))
      else Inr (filter (\<lambda>token. token \<noteq> []) (split_char CHR '','' entry)))"


section \<open>The error messages of the validation engine\<close>

lemma then_do_Inr [simp]: "then_do (Inr x) f = f x"
  by (simp add: then_do_def)

lemma then_do_Inl [simp]: "then_do (Inl e) f = Inl e"
  by (simp add: then_do_def)

lemma split_char_no_sep: "sep \<notin> set x \<Longrightarrow> split_char sep x = [x]"
  by (induction x) auto

lemma split_char_append:
  "sep \<notin> set x \<Longrightarrow> split_char sep (x @ sep # rest) = x # split_char sep rest"
  by (induction x) auto

lemma split_char_join:
  "xs \<noteq> [] \<Longrightarrow> \<forall>x \<in> set xs. sep \<notin> set x \<Longrightarrow> split_char sep (join [sep] xs) = xs"
proof (induction xs)
  case Nil
  then show ?case by simp
next
  case (Cons x xs)
  show ?case
  proof (cases xs)
    case Nil
    with Cons.prems show ?thesis by (simp add: split_char_no_sep)
  next
    case (Cons y ys)
    with Cons.IH Cons.prems show ?thesis by (simp add: split_char_append)
  qed
qed

lemma formatZodError_lines: "formatZodError issues = join [newline] (map issue_line issues)"
proof -
  have "(\<lambda>issue. let path = (if length (path issue) > 0
                                then join ''.'' (map segment_text (path issue))
                                else ''(root)'')
                 in ''  - '' @ path @ '': '' @ message issue) = issue_line"
    by (rule ext) (simp add: issue_line_def)
  then show ?thesis unfolding formatZodError_def by simp
qed

text \<open>
  C1. Whatever the flag name and the schema, when \<open>JSON.parse\<close> rejects the text,
  \<open>parseCLIOption\<close> throws \<open>Invalid JSON for "<flag>": <the parser's description>\<close>.
  The schema plays no part in the result: the failure comes before validation. The
  empty string is such a text.
\<close>

theorem invalid_JSON_message:
  assumes "JSON_parse jsonString = Inl err"
  shows "parseCLIOption JSON_parse flagName jsonString schema
           = Inl (Error (''Invalid JSON for \"'' @ flagName @ ''\": '' @ error_message err))
         \<and> parseCLIOption ecma_JSON_parse flagName [] schema
           = Inl (Error (''Invalid JSON for \"'' @ flagName @ ''\": Unexpected end of JSON input''))"
proof -
  have "ecma_JSON_parse [] = Inl (SyntaxError ''Unexpected end of JSON input'')"
    by (simp add: ecma_JSON_parse_def bad_description_def)
  with assms show ?thesis by (simp add: parseCLIOption_def)
qed

theorem invalid_JSON_message_witness:
  "ecma_JSON_parse ''{'a': 1}'' = Inl (SyntaxError ''Unexpected token in JSON'')
   \<and> parseCLIOption ecma_JSON_parse ''--test'' ''{'a': 1}'' CookiesSchema
       = Inl (Error ''Invalid JSON for \"--test\": Unexpected token in JSON'')"
proof -
  have h: "ecma_JSON_parse ''{'a': 1}'' = Inl (SyntaxError ''Unexpected token in JSON'')"
    by code_simp
  from invalid_JSON_message [of ecma_JSON_parse "''{'a': 1}''" _ "''--test''" CookiesSchema, OF h] h
  show ?thesis by simp
qed

text \<open>
  C2. When the schema rejects a value with a list of issues, \<open>parseUnknown\<close>, and
  \<open>parseCLIOption\<close> on a text that parses to that value, throw
  \<open>Invalid data for "<flag>":\<close> followed by a line break and the lines of the issues
  joined by line breaks, in the order of the issues. Where no line holds a line break
  of its own, splitting the text at line breaks gives back exactly one line per issue.
\<close>

theorem invalid_data_message:
  assumes "safeParse schema data = Inl issues"
  shows "parseUnknown flagName data schema
           = Inl (Error (''Invalid data for \"'' @ flagName @ ''\":'' @ [newline]
                         @ join [newline] (map issue_line issues)))
         \<and> (JSON_parse jsonString = Inr data \<longrightarrow>
              parseCLIOption JSON_parse flagName jsonString schema
                = Inl (Error (''Invalid data for \"'' @ flagName @ ''\":'' @ [newline]
                              @ join [newline] (map issue_line issues))))
         \<and> (issues \<noteq> [] \<and> (\<forall>i \<in> set issues. newline \<notin> set (issue_line i)) \<longrightarrow>
              split_char newline (join [newline] (map issue_line issues)) = map issue_line issues)"
  using assms
  by (simp add: parseUnknown_def parseCLIOption_def formatZodError_lines split_char_join)

theorem invalid_data_message_witness:
  "parseUnknown ''--block'' (JArr [JNum (Num 1), JStr ''a'', JBool True]) StringArraySchema
     = Inl (Error (''Invalid data for \"--block\":'' @ [newline]
                   @ ''  - 0: Expected string, received number'' @ [newline]
                   @ ''  - 2: Expected string, received boolean''))
   \<and> parseCLIOption ecma_JSON_parse ''--block'' ''[1, \"a\", true]'' StringArraySchema
     = Inl (Error (''Invalid data for \"--block\":'' @ [newline]
                   @ ''  - 0: Expected string, received number'' @ [newline]
                   @ ''  - 2: Expected string, received boolean''))
   \<and> split_char newline (''  - 0: Expected string, received number'' @ [newline]
                          @ ''  - 2: Expected string, received boolean'')
     = [''  - 0: Expected string, received number'', ''  - 2: Expected string, received boolean'']"
proof -
  let ?issues = "[Issue [Index 0] ''Expected string, received number'',
                  Issue [Index 2] ''Expected string, received boolean'']"
  have h1: "safeParse StringArraySchema (JArr [JNum (Num 1), JStr ''a'', JBool True]) = Inl ?issues"
    by code_simp
  have h2: "ecma_JSON_parse ''[1, \"a\", true]'' = Inr (JArr [JNum (Num 1), JStr ''a'', JBool True])"
    by code_simp
  have h3: "map issue_line ?issues
              = [''  - 0: Expected string, received number'', ''  - 2: Expected string, received boolean'']"
    by code_simp
  have h4: "newline \<notin> set ''  - 0: Expected string, received number''"
           "newline \<notin> set ''  - 2: Expected string, received boolean''"
    by (simp_all add: newline_def)
  from invalid_data_message [OF h1, of "''--block''" ecma_JSON_parse "''[1, \"a\", true]''"] h2 h3 h4
  show ?thesis by simp
qed


section \<open>The schemas\<close>

text \<open>
  C3. The cookie schema as written requires \<open>domain\<close> and \<open>path\<close>: a cookie with only
  \<open>name\<close> and \<open>value\<close>, or with a \<open>url\<close> in place of \<open>domain\<close> and \<open>path\<close>, is
  rejected, alone or through \<open>parseCLIOption\<close>.
\<close>

theorem cookie_requires_domain_and_path:
  "CookieSchema (JObj [(''name'', JStr ''a''), (''value'', JStr ''b'')])
     = Inl [Issue [Key ''domain''] ''Required'', Issue [Key ''path''] ''Required'']
   \<and> parseCLIOption ecma_JSON_parse ''--cookies'' ''{\"name\":\"a\",\"value\":\"b\"}'' CookiesSchema
     = Inl (Error (''Invalid data for \"--cookies\":'' @ [newline] @ ''  - (root): Invalid input''))
   \<and> parseCLIOption ecma_JSON_parse ''--cookies''
        ''{\"name\":\"a\",\"value\":\"b\",\"url\":\"https://example.com\"}'' CookiesSchema
     = Inl (Error (''Invalid data for \"--cookies\":'' @ [newline] @ ''  - (root): Invalid input''))"
  by code_simp


lemma cookie_with_domain_and_path_accepted:
  "parseCLIOption ecma_JSON_parse ''--cookies''
     ''{\"name\":\"a\",\"value\":\"b\",\"domain\":\"d\",\"path\":\"/\",\"extra\":\"field\"}'' CookiesSchema
   = Inr (JObj [(''name'', JStr ''a''), (''value'', JStr ''b''), (''domain'', JStr ''d''),
                (''path'', JStr ''/''), (''extra'', JStr ''field'')])"
  by code_simp

text \<open>
  C8. The positive-integer schema maps \<open>"42"\<close> to 42 and 10 to 10 and rejects \<open>"0"\<close>,
  \<open>"-5"\<close>, \<open>"3.5"\<close>, \<open>"abc"\<close> and the empty string; the positive-float schema maps
  \<open>"4.5"\<close> to 4.5, \<open>"2"\<close> to 2 and 3.14 to 3.14 and rejects \<open>"0"\<close>, \<open>"-1.5"\<close> and
  \<open>"fast"\<close>.
\<close>

theorem positive_number_schemas:
  "PositiveIntSchema (JStr ''42'') = Inr (JNum (Num 42))
   \<and> PositiveIntSchema (JNum (Num 10)) = Inr (JNum (Num 10))
   \<and> isl (PositiveIntSchema (JStr ''0''))
   \<and> isl (PositiveIntSchema (JStr ''-5''))
   \<and> isl (PositiveIntSchema (JStr ''3.5''))
   \<and> isl (PositiveIntSchema (JStr ''abc''))
   \<and> isl (PositiveIntSchema (JStr ''''))
   \<and> PositiveFloatSchema (JStr ''4.5'') = Inr (JNum (Num 4.5))
   \<and> PositiveFloatSchema (JStr ''2'') = Inr (JNum (Num 2))
   \<and> PositiveFloatSchema (JNum (Num 3.14)) = Inr (JNum (Num 3.14))
   \<and> isl (PositiveFloatSchema (JStr ''0''))
   \<and> isl (PositiveFloatSchema (JStr ''-1.5''))
   \<and> isl (PositiveFloatSchema (JStr ''fast''))"
  by code_simp


text \<open>
  In general: the input is coerced with \<open>Number\<close>, then checked to be strictly positive
  and, by the integer schema, integral.
\<close>

lemma ZodNumber_coerce:
  "ZodNumber True checks v =
     (if ToNumber v = NaN then Inl [Issue [] ''Expected number, received nan'']
      else if concat (map (check_issues (ToNumber v)) checks) = [] then Inr (JNum (ToNumber v))
      else Inl (concat (map (check_issues (ToNumber v)) checks)))"
  by (simp add: ZodNumber_def Let_def invalid_type_def)

lemma PositiveFloatSchema_accepts:
  "PositiveFloatSchema v = Inr w \<longleftrightarrow> w = JNum (ToNumber v) \<and> greater_than_zero (ToNumber v)"
  by (auto simp: PositiveFloatSchema_def ZodNumber_coerce check_issues_def greater_than_zero_def
           split: number.splits)

lemma PositiveIntSchema_accepts:
  "PositiveIntSchema v = Inr w \<longleftrightarrow>
     w = JNum (ToNumber v) \<and> isInteger (ToNumber v) \<and> greater_than_zero (ToNumber v)"
  by (auto simp: PositiveIntSchema_def ZodNumber_coerce check_issues_def greater_than_zero_def
           isInteger_def split: number.splits)


section \<open>Lists of choices\<close>

lemma parse_choices_chosen:
  "parse_choices P flag chosen choices = map_sum id ((@) chosen) (parse_choices P flag [] choices)"
proof (induction choices arbitrary: chosen)
  case Nil
  then show ?case by simp
next
  case (Cons g rest)
  note IH = Cons.IH
  show ?case
  proof (cases "CHR ''['' \<in> set g")
    case False
    then show ?thesis
      using IH [of "chosen @ filter (\<lambda>opt. opt \<noteq> []) (split_char CHR '','' g)"]
            IH [of "filter (\<lambda>opt. opt \<noteq> []) (split_char CHR '','' g)"]
      by (cases "parse_choices P flag [] rest") simp_all
  next
    case True
    show ?thesis
    proof (cases "P g")
      case (Inl e)
      with True show ?thesis by simp
    next
      case (Inr parsed)
      show ?thesis
      proof (cases "parseUnknown flag parsed StringArraySchema")
        case (Inl e)
        with True Inr show ?thesis by simp
      next
        case (Inr strings)
        with True \<open>P g = Inr parsed\<close> show ?thesis
          using IH [of "chosen @ string_elements strings"] IH [of "string_elements strings"]
          by (cases "parse_choices P flag [] rest") simp_all
      qed
    qed
  qed
qed

lemma parse_choices_Cons:
  "parse_choices P flag [] (g # rest) =
     (case entry_result P flag g of
        Inl err \<Rightarrow> Inl err
      | Inr tokens \<Rightarrow> map_sum id ((@) tokens) (parse_choices P flag [] rest))"
proof (cases "CHR ''['' \<in> set g")
  case False
  then show ?thesis
    by (simp add: entry_result_def
          parse_choices_chosen [of P flag "filter (\<lambda>opt. opt \<noteq> []) (split_char CHR '','' g)" rest])
next
  case True
  show ?thesis
  proof (cases "P g")
    case (Inl e)
    with True show ?thesis by (simp add: entry_result_def)
  next
    case (Inr parsed)
    show ?thesis
    proof (cases "parseUnknown flag parsed StringArraySchema")
      case (Inl e)
      with True Inr show ?thesis by (simp add: entry_result_def)
    next
      case (Inr strings)
      with True \<open>P g = Inr parsed\<close> show ?thesis
        by (simp add: entry_result_def parse_choices_chosen [of P flag "string_elements strings" rest])
    qed
  qed
qed

lemma parse_choices_all_ok:
  "\<forall>g \<in> set choices. \<not> isl (entry_result P flag g) \<Longrightarrow>
     parse_choices P flag [] choices = Inr (concat (map (\<lambda>g. projr (entry_result P flag g)) choices))"
proof (induction choices)
  case Nil
  then show ?case by simp
next
  case (Cons g rest)
  then show ?case
    by (cases "entry_result P flag g") (simp_all add: parse_choices_Cons del: parse_choices.simps)
qed

lemma parse_choices_first_failure:
  "\<forall>g \<in> set ok. \<not> isl (entry_result P flag g) \<Longrightarrow> entry_result P flag bad = Inl err \<Longrightarrow>
     parse_choices P flag [] (ok @ bad # rest) = Inl err"
proof (induction ok)
  case Nil
  then show ?case by (simp add: parse_choices_Cons del: parse_choices.simps)
next
  case (Cons g ok)
  then show ?case
    by (cases "entry_result P flag g") (simp_all add: parse_choices_Cons del: parse_choices.simps)
qed

lemma z_array_strings:
  "z_array z_string (JArr (map JStr ss)) = Inr (JArr (map JStr ss))"
proof -
  have a: "map (\<lambda>(i, x). under (Index i) (z_string x)) (enumerate n (map JStr ss))
             = map Inr (map JStr ss)" for n
    by (induction ss arbitrary: n) (simp_all add: under_def z_string_def)
  show ?thesis
    by (simp add: z_array_def a list_all_iff comp_def)
qed



text \<open>
  C10. On the comma-separated path tokens are not trimmed: \<open>a, b\<close> gives \<open>a\<close> and
  \<open> b\<close>, a token of white space is kept, and only empty tokens are dropped. Any
  non-empty tokens without comma or bracket come back verbatim from their
  comma-joined text.
\<close>

theorem comma_tokens_not_trimmed:
  "parseJSONArrayOrCommaSeparatedStrings JSON_parse flagName [''a, b''] = Inr [''a'', '' b'']
   \<and> parseJSONArrayOrCommaSeparatedStrings JSON_parse flagName [''a, ,b''] = Inr [''a'', '' '', ''b'']
   \<and> (CHR ''['' \<notin> set entry \<longrightarrow>
        parseJSONArrayOrCommaSeparatedStrings JSON_parse flagName [entry]
          = Inr (filter (\<lambda>token. token \<noteq> []) (split_char CHR '','' entry)))
   \<and> (tokens \<noteq> [] \<and> (\<forall>t \<in> set tokens. t \<noteq> [] \<and> CHR '','' \<notin> set t \<and> CHR ''['' \<notin> set t) \<longrightarrow>
        parseJSONArrayOrCommaSeparatedStrings JSON_parse flagName [join '','' tokens] = Inr tokens)"
proof -
  have general: "CHR ''['' \<notin> set e \<Longrightarrow>
        parseJSONArrayOrCommaSeparatedStrings JSON_parse flagName [e]
          = Inr (filter (\<lambda>token. token \<noteq> []) (split_char CHR '','' e))" for e
    by (simp add: parseJSONArrayOrCommaSeparatedStrings_def)
  have no_bracket: "CHR ''['' \<notin> set (join '','' ts)" if "\<forall>t \<in> set ts. CHR ''['' \<notin> set t" for ts
    using that by (induction "'',''" ts rule: join.induct) simp_all
  have round: "parseJSONArrayOrCommaSeparatedStrings JSON_parse flagName [join '','' tokens] = Inr tokens"
    if "tokens \<noteq> []" and "\<forall>t \<in> set tokens. t \<noteq> [] \<and> CHR '','' \<notin> set t \<and> CHR ''['' \<notin> set t"
  proof -
    have "split_char CHR '','' (join '','' tokens) = tokens"
      using that split_char_join [of tokens "CHR '',''"] by simp
    moreover have "filter (\<lambda>token. token \<noteq> []) tokens = tokens"
      using that by (simp add: filter_id_conv)
    ultimately show ?thesis using general [OF no_bracket] that by simp
  qed
  show ?thesis using general round by simp
qed


theorem comma_tokens_not_trimmed_witness:
  "parseJSONArrayOrCommaSeparatedStrings ecma_JSON_parse ''--block'' ['',x , y,,'']
     = Inr [''x '', '' y'']
   \<and> parseJSONArrayOrCommaSeparatedStrings ecma_JSON_parse ''--block'' [''a,  ,b c'']
     = Inr [''a'', ''  '', ''b c'']"
proof -
  have h1: "CHR ''['' \<notin> set '',x , y,,''"
    by simp
  have h2: "[''a'', ''  '', ''b c''] \<noteq> []
            \<and> (\<forall>t \<in> set [''a'', ''  '', ''b c'']. t \<noteq> [] \<and> CHR '','' \<notin> set t \<and> CHR ''['' \<notin> set t)"
    by simp
  from comma_tokens_not_trimmed [of ecma_JSON_parse "''--block''" "'',x , y,,''" "[''a'', ''  '', ''b c'']"]
       h1 h2
  show ?thesis by simp
qed


section \<open>What a call of the normalizer computes\<close>

lemma then_do_InrE:
  assumes "then_do r f = Inr y"
  obtains x where "r = Inr x" and "f x = Inr y"
  using assms by (cases r) simp_all

lemma then_do_map_sum: "then_do (map_sum id u r) f = then_do r (\<lambda>x. f (u x))"
  by (cases r) simp_all

lemma map_sum_then_do: "map_sum id u (then_do r f) = then_do r (\<lambda>x. map_sum id u (f x))"
  by (cases r) simp_all

lemma then_do_assoc: "then_do (then_do r f) g = then_do r (\<lambda>x. then_do (f x) g)"
  by (cases r) simp_all

lemma then_do_pure: "then_do r (\<lambda>v. Inr (g v)) = map_sum id g r"
  by (cases r) simp_all

lemma map_sum_map_sum: "map_sum id f (map_sum id g r) = map_sum id (\<lambda>x. f (g x)) r"
  by (cases r) simp_all

lemma set_cookies_eq:
  "parse_field P flag field schema (\<lambda>v. c\<lparr>cookies := Some v\<rparr>) c
     = map_sum id (\<lambda>x. c\<lparr>cookies := x\<rparr>) (field_value P flag field schema Some (cookies c))"
  by (simp add: parse_field_def field_value_def then_do_pure map_sum_map_sum split: option.splits)

lemma set_headers_eq:
  "parse_field P flag field schema (\<lambda>v. c\<lparr>headers := Some v\<rparr>) c
     = map_sum id (\<lambda>x. c\<lparr>headers := x\<rparr>) (field_value P flag field schema Some (headers c))"
  by (simp add: parse_field_def field_value_def then_do_pure map_sum_map_sum split: option.splits)

lemma set_auth_eq:
  "parse_field P flag field schema (\<lambda>v. c\<lparr>auth := v\<rparr>) c
     = map_sum id (\<lambda>x. c\<lparr>auth := x\<rparr>) (field_value P flag field schema id (auth c))"
  by (simp add: parse_field_def field_value_def then_do_pure map_sum_map_sum split: option.splits)

lemma set_firefoxPrefs_eq:
  "parse_field P flag field schema (\<lambda>v. c\<lparr>firefoxPrefs := Some v\<rparr>) c
     = map_sum id (\<lambda>x. c\<lparr>firefoxPrefs := x\<rparr>) (field_value P flag field schema Some (firefoxPrefs c))"
  by (simp add: parse_field_def field_value_def then_do_pure map_sum_map_sum split: option.splits)

lemma set_overrideHost_eq:
  "parse_field P flag field schema (\<lambda>v. c\<lparr>overrideHost := Some v\<rparr>) c
     = map_sum id (\<lambda>x. c\<lparr>overrideHost := x\<rparr>) (field_value P flag field schema Some (overrideHost c))"
  by (simp add: parse_field_def field_value_def then_do_pure map_sum_map_sum split: option.splits)

lemma set_delay_eq:
  "set_delay P opts c
     = map_sum id (\<lambda>x. c\<lparr>delay := x\<rparr>) (delay_value P (CLIOptions.delay opts) (delay c))"
  by (simp add: set_delay_def delay_value_def then_do_pure map_sum_map_sum split: option.splits)

lemma set_delayUsing_eq:
  "set_delayUsing opts c
     = Inr (c\<lparr>delayUsing := delayUsing_value (CLIOptions.delayUsing opts) (delayUsing c)\<rparr>)"
  by (auto simp: set_delayUsing_def delayUsing_value_def split: option.splits)

lemma set_args_eq:
  "set_args opts c = Inr (c\<lparr>args := args_value (CLIOptions.flags opts) (args c)\<rparr>)"
  by (auto simp: set_args_def args_value_def split: option.splits)

lemma set_cpuThrottle_eq:
  "set_cpuThrottle opts c
     = Inr (c\<lparr>cpuThrottle := cpuThrottle_value (CLIOptions.cpuThrottle opts) (cpuThrottle c)\<rparr>)"
  by (auto simp: set_cpuThrottle_def cpuThrottle_value_def split: option.splits)

lemma set_block_eq:
  "set_block P opts c
     = map_sum id (\<lambda>x. c\<lparr>block := x\<rparr>) (choices_value P ''--block'' (CLIOptions.block opts) (block c))"
  by (simp add: set_block_def choices_value_def split: option.splits sum.splits)

lemma set_blockDomains_eq:
  "set_blockDomains P opts c
     = map_sum id (\<lambda>x. c\<lparr>blockDomains := x\<rparr>)
         (choices_value P ''--blockDomains'' (CLIOptions.blockDomains opts) (blockDomains c))"
  by (simp add: set_blockDomains_def choices_value_def split: option.splits sum.splits)

lemma set_uploadUrl_eq:
  "set_uploadUrl U opts c
     = map_sum id (\<lambda>x. c\<lparr>uploadUrl := x\<rparr>) (uploadUrl_value U (CLIOptions.uploadUrl opts) (uploadUrl c))"
  by (simp add: set_uploadUrl_def uploadUrl_value_def split: option.splits)

lemma shared_tail_eq:
  "shared_tail P U opts c =
     then_do (choices_value P ''--block'' (CLIOptions.block opts) (block c)) (\<lambda>b.
     then_do (choices_value P ''--blockDomains'' (CLIOptions.blockDomains opts) (blockDomains c)) (\<lambda>bd.
     then_do (uploadUrl_value U (CLIOptions.uploadUrl opts) (uploadUrl c)) (\<lambda>u.
     Inr (c\<lparr>args := args_value (CLIOptions.flags opts) (args c),
            cpuThrottle := cpuThrottle_value (CLIOptions.cpuThrottle opts) (cpuThrottle c),
            block := b, blockDomains := bd, uploadUrl := u\<rparr>))))"
  unfolding shared_tail_def set_args_eq set_cpuThrottle_eq set_block_eq set_blockDomains_eq
    set_uploadUrl_eq
  by (simp add: then_do_map_sum then_do_pure)

lemma parse_structured_eq:
  "parse_structured P opts c =
     then_do (field_value P ''--cookies'' (CLIOptions.cookies opts) CookiesSchema Some (cookies c)) (\<lambda>x1.
     then_do (field_value P ''--headers'' (CLIOptions.headers opts) HeadersSchema Some (headers c)) (\<lambda>x2.
     then_do (field_value P ''--auth'' (CLIOptions.auth opts) AuthSchema id (auth c)) (\<lambda>x3.
     then_do (delay_value P (CLIOptions.delay opts) (delay c)) (\<lambda>x4.
     then_do (field_value P ''--firefoxPrefs'' (CLIOptions.firefoxPrefs opts) FirefoxPrefsSchema Some (firefoxPrefs c)) (\<lambda>x6.
     then_do (field_value P ''--overrideHost'' (CLIOptions.overrideHost opts) OverrideHostSchema Some (overrideHost c)) (\<lambda>x7.
     Inr (c\<lparr>cookies := x1, headers := x2, auth := x3, delay := x4,
            delayUsing := delayUsing_value (CLIOptions.delayUsing opts) (delayUsing c),
            firefoxPrefs := x6, overrideHost := x7\<rparr>)))))))"
  unfolding parse_structured_def set_cookies_eq set_headers_eq set_auth_eq set_delay_eq
    set_delayUsing_eq set_firefoxPrefs_eq set_overrideHost_eq
  by (simp add: then_do_map_sum then_do_pure)


lemma pass_field_cookies_eq:
  "pass_field field (\<lambda>v. c\<lparr>cookies := Some v\<rparr>) c = Inr (c\<lparr>cookies := passed_value field Some (cookies c)\<rparr>)"
  by (simp add: pass_field_def passed_value_def split: option.splits)

lemma pass_field_headers_eq:
  "pass_field field (\<lambda>v. c\<lparr>headers := Some v\<rparr>) c = Inr (c\<lparr>headers := passed_value field Some (headers c)\<rparr>)"
  by (simp add: pass_field_def passed_value_def split: option.splits)

lemma pass_field_auth_eq:
  "pass_field field (\<lambda>v. c\<lparr>auth := v\<rparr>) c = Inr (c\<lparr>auth := passed_value field id (auth c)\<rparr>)"
  by (simp add: pass_field_def passed_value_def split: option.splits)

lemma pass_field_delay_eq:
  "pass_field field (\<lambda>v. c\<lparr>delay := Some v\<rparr>) c = Inr (c\<lparr>delay := passed_value field Some (delay c)\<rparr>)"
  by (simp add: pass_field_def passed_value_def split: option.splits)

lemma pass_field_firefoxPrefs_eq:
  "pass_field field (\<lambda>v. c\<lparr>firefoxPrefs := Some v\<rparr>) c
     = Inr (c\<lparr>firefoxPrefs := passed_value field Some (firefoxPrefs c)\<rparr>)"
  by (simp add: pass_field_def passed_value_def split: option.splits)

lemma pass_field_overrideHost_eq:
  "pass_field field (\<lambda>v. c\<lparr>overrideHost := Some v\<rparr>) c
     = Inr (c\<lparr>overrideHost := passed_value field Some (overrideHost c)\<rparr>)"
  by (simp add: pass_field_def passed_value_def split: option.splits)

lemma pass_delayUsing_eq:
  "pass_delayUsing opts c
     = Inr (c\<lparr>delayUsing := delayUsing_passed (CLIOptions.delayUsing opts) (delayUsing c)\<rparr>)"
  by (auto simp: pass_delayUsing_def delayUsing_passed_def split: option.splits)

lemma pass_structured_eq:
  "pass_structured opts c =
     Inr (c\<lparr>cookies := passed_value (CLIOptions.cookies opts) Some (cookies c),
            headers := passed_value (CLIOptions.headers opts) Some (headers c),
            auth := passed_value (CLIOptions.auth opts) id (auth c),
            delay := passed_value (CLIOptions.delay opts) Some (delay c),
            delayUsing := delayUsing_passed (CLIOptions.delayUsing opts) (delayUsing c),
            firefoxPrefs := passed_value (CLIOptions.firefoxPrefs opts) Some (firefoxPrefs c),
            overrideHost := passed_value (CLIOptions.overrideHost opts) Some (overrideHost c)\<rparr>)"
  unfolding pass_structured_def pass_field_cookies_eq pass_field_headers_eq pass_field_auth_eq
    pass_field_delay_eq pass_delayUsing_eq pass_field_firefoxPrefs_eq pass_field_overrideHost_eq
  by simp

lemma initial_config_fields [simp]:
  "cookies (initial_config D opts) = None"
  "headers (initial_config D opts) = None"
  "auth (initial_config D opts) = auth D"
  "delay (initial_config D opts) = None"
  "delayUsing (initial_config D opts) = delayUsing D"
  "firefoxPrefs (initial_config D opts) = None"
  "overrideHost (initial_config D opts) = None"
  "args (initial_config D opts) = None"
  "cpuThrottle (initial_config D opts) = None"
  "uploadUrl (initial_config D opts) = None"
  "block (initial_config D opts) = or_list (CLIOptions.block opts) (block D)"
  "blockDomains (initial_config D opts) = or_list (CLIOptions.blockDomains opts) (blockDomains D)"
  "width (initial_config D opts) = nullish (CLIOptions.width opts) (width D)"
  "height (initial_config D opts) = nullish (CLIOptions.height opts) (height D)"
  "frameRate (initial_config D opts) = nullish (CLIOptions.frameRate opts) (frameRate D)"
  "timeout (initial_config D opts) = nullish (CLIOptions.timeout opts) (timeout D)"
  by (simp_all add: initial_config_def)

lemma normalizeCLIConfig_eq:
  "normalizeCLIConfig P U D opts =
     then_do (field_value P ''--cookies'' (CLIOptions.cookies opts) CookiesSchema Some None) (\<lambda>x1.
     then_do (field_value P ''--headers'' (CLIOptions.headers opts) HeadersSchema Some None) (\<lambda>x2.
     then_do (field_value P ''--auth'' (CLIOptions.auth opts) AuthSchema id (auth D)) (\<lambda>x3.
     then_do (delay_value P (CLIOptions.delay opts) None) (\<lambda>x4.
     then_do (field_value P ''--firefoxPrefs'' (CLIOptions.firefoxPrefs opts) FirefoxPrefsSchema Some None) (\<lambda>x6.
     then_do (field_value P ''--overrideHost'' (CLIOptions.overrideHost opts) OverrideHostSchema Some None) (\<lambda>x7.
     then_do (choices_value P ''--block'' (CLIOptions.block opts) (or_list (CLIOptions.block opts) (block D))) (\<lambda>b.
     then_do (choices_value P ''--blockDomains'' (CLIOptions.blockDomains opts)
                (or_list (CLIOptions.blockDomains opts) (blockDomains D))) (\<lambda>bd.
     then_do (uploadUrl_value U (CLIOptions.uploadUrl opts) None) (\<lambda>u.
     Inr ((initial_config D opts)
            \<lparr>cookies := x1, headers := x2, auth := x3, delay := x4,
             delayUsing := delayUsing_value (CLIOptions.delayUsing opts) (delayUsing D),
             firefoxPrefs := x6, overrideHost := x7,
             args := args_value (CLIOptions.flags opts) None,
             cpuThrottle := cpuThrottle_value (CLIOptions.cpuThrottle opts) None,
             block := b, blockDomains := bd, uploadUrl := u\<rparr>))))))))))"
  by (simp add: normalizeCLIConfig_def parse_structured_eq shared_tail_eq then_do_assoc)


lemma normalizeCLIConfig2_eq:
  "normalizeCLIConfig2 P U D opts =
     then_do (choices_value P ''--block'' (CLIOptions.block opts) (or_list (CLIOptions.block opts) (block D))) (\<lambda>b.
     then_do (choices_value P ''--blockDomains'' (CLIOptions.blockDomains opts)
                (or_list (CLIOptions.blockDomains opts) (blockDomains D))) (\<lambda>bd.
     then_do (uploadUrl_value U (CLIOptions.uploadUrl opts) None) (\<lambda>u.
     Inr ((initial_config D opts)
            \<lparr>cookies := passed_value (CLIOptions.cookies opts) Some None,
             headers := passed_value (CLIOptions.headers opts) Some None,
             auth := passed_value (CLIOptions.auth opts) id (auth D),
             delay := passed_value (CLIOptions.delay opts) Some None,
             delayUsing := delayUsing_passed (CLIOptions.delayUsing opts) (delayUsing D),
             firefoxPrefs := passed_value (CLIOptions.firefoxPrefs opts) Some None,
             overrideHost := passed_value (CLIOptions.overrideHost opts) Some None,
             args := args_value (CLIOptions.flags opts) None,
             cpuThrottle := cpuThrottle_value (CLIOptions.cpuThrottle opts) None,
             block := b, blockDomains := bd, uploadUrl := u\<rparr>))))"
  by (simp add: normalizeCLIConfig2_def pass_structured_eq shared_tail_eq)

lemma normalizeCLIConfig_InrE:
  assumes "normalizeCLIConfig P U D opts = Inr cfg"
  obtains x1 x2 x3 x4 x6 x7 b bd u where
    "field_value P ''--cookies'' (CLIOptions.cookies opts) CookiesSchema Some None = Inr x1"
    "field_value P ''--headers'' (CLIOptions.headers opts) HeadersSchema Some None = Inr x2"
    "field_value P ''--auth'' (CLIOptions.auth opts) AuthSchema id (auth D) = Inr x3"
    "delay_value P (CLIOptions.delay opts) None = Inr x4"
    "field_value P ''--firefoxPrefs'' (CLIOptions.firefoxPrefs opts) FirefoxPrefsSchema Some None = Inr x6"
    "field_value P ''--overrideHost'' (CLIOptions.overrideHost opts) OverrideHostSchema Some None = Inr x7"
    "choices_value P ''--block'' (CLIOptions.block opts) (or_list (CLIOptions.block opts) (block D)) = Inr b"
    "choices_value P ''--blockDomains'' (CLIOptions.blockDomains opts)
                (or_list (CLIOptions.blockDomains opts) (blockDomains D)) = Inr bd"
    "uploadUrl_value U (CLIOptions.uploadUrl opts) None = Inr u"
    "cfg = (initial_config D opts)
            \<lparr>cookies := x1, headers := x2, auth := x3, delay := x4,
             delayUsing := delayUsing_value (CLIOptions.delayUsing opts) (delayUsing D),
             firefoxPrefs := x6, overrideHost := x7,
             args := args_value (CLIOptions.flags opts) None,
             cpuThrottle := cpuThrottle_value (CLIOptions.cpuThrottle opts) None,
             block := b, blockDomains := bd, uploadUrl := u\<rparr>"
  using assms unfolding normalizeCLIConfig_eq
  by (elim then_do_InrE) simp

lemma normalizeCLIConfig2_InrE:
  assumes "normalizeCLIConfig2 P U D opts = Inr cfg"
  obtains b bd u where
    "choices_value P ''--block'' (CLIOptions.block opts) (or_list (CLIOptions.block opts) (block D)) = Inr b"
    "choices_value P ''--blockDomains'' (CLIOptions.blockDomains opts)
                (or_list (CLIOptions.blockDomains opts) (blockDomains D)) = Inr bd"
    "uploadUrl_value U (CLIOptions.uploadUrl opts) None = Inr u"
    "cfg = (initial_config D opts)
            \<lparr>cookies := passed_value (CLIOptions.cookies opts) Some None,
             headers := passed_value (CLIOptions.headers opts) Some None,
             auth := passed_value (CLIOptions.auth opts) id (auth D),
             delay := passed_value (CLIOptions.delay opts) Some None,
             delayUsing := delayUsing_passed (CLIOptions.delayUsing opts) (delayUsing D),
             firefoxPrefs := passed_value (CLIOptions.firefoxPrefs opts) Some None,
             overrideHost := passed_value (CLIOptions.overrideHost opts) Some None,
             args := args_value (CLIOptions.flags opts) None,
             cpuThrottle := cpuThrottle_value (CLIOptions.cpuThrottle opts) None,
             block := b, blockDomains := bd, uploadUrl := u\<rparr>"
  using assms unfolding normalizeCLIConfig2_eq
  by (elim then_do_InrE) simp

lemma initial_config_delayUsing [simp]:
  "initial_config D (opts\<lparr>CLIOptions.delayUsing := x\<rparr>) = initial_config D opts"
  by (simp add: initial_config_def)

lemma delayUsing_update_early:
  "c\<lparr>firefoxPrefs := x6, delayUsing := d\<rparr> = c\<lparr>delayUsing := d, firefoxPrefs := x6\<rparr>"
  "c\<lparr>overrideHost := x7, delayUsing := d\<rparr> = c\<lparr>delayUsing := d, overrideHost := x7\<rparr>"
  "c\<lparr>args := a, delayUsing := d\<rparr> = c\<lparr>delayUsing := d, args := a\<rparr>"
  "c\<lparr>cpuThrottle := t, delayUsing := d\<rparr> = c\<lparr>delayUsing := d, cpuThrottle := t\<rparr>"
  "c\<lparr>block := b, delayUsing := d\<rparr> = c\<lparr>delayUsing := d, block := b\<rparr>"
  "c\<lparr>blockDomains := bd, delayUsing := d\<rparr> = c\<lparr>delayUsing := d, blockDomains := bd\<rparr>"
  "c\<lparr>uploadUrl := u, delayUsing := d\<rparr> = c\<lparr>delayUsing := d, uploadUrl := u\<rparr>"
  by (cases c, simp)+

lemma initial_config_tail_options [simp]:
  "initial_config D (opts\<lparr>CLIOptions.uploadUrl := x\<rparr>) = initial_config D opts"
  by (simp add: initial_config_def)

lemma string_elements_strings [simp]: "string_elements (JArr (map JStr ss)) = ss"
  by (simp add: string_elements_def comp_def)

lemma z_array_strings_only:
  "list_all (\<lambda>r. \<not> isl r) (map (\<lambda>(i, x). under (Index i) (z_string x)) (enumerate n xs)) \<Longrightarrow>
     (\<exists>ss. xs = map JStr ss)
     \<and> map projr (map (\<lambda>(i, x). under (Index i) (z_string x)) (enumerate n xs)) = xs"
proof (induction xs arbitrary: n)
  case Nil
  then show ?case by simp
next
  case (Cons x xs)
  from Cons.prems have x: "\<not> isl (under (Index n) (z_string x))"
    and rest: "list_all (\<lambda>r. \<not> isl r) (map (\<lambda>(i, x). under (Index i) (z_string x)) (enumerate (Suc n) xs))"
    by simp_all
  from x obtain s where s: "x = JStr s"
    by (cases x) (simp_all add: under_def z_string_def)
  from Cons.IH [OF rest] obtain ss where ss: "xs = map JStr ss"
    and m: "map projr (map (\<lambda>(i, x). under (Index i) (z_string x)) (enumerate (Suc n) xs)) = xs"
    by blast
  have a: "x # xs = map JStr (s # ss)" using s ss by simp
  have b: "projr (under (Index n) (z_string x)) = x"
    using s by (simp add: under_def z_string_def)
  from a have "\<exists>ss'. x # xs = map JStr ss'" by (rule exI [of _ "s # ss"])
  moreover have "map projr (map (\<lambda>(i, x). under (Index i) (z_string x)) (enumerate n (x # xs))) = x # xs"
    using b m by simp
  ultimately show ?case by blast
qed

lemma StringArraySchema_Inr:
  assumes "StringArraySchema v = Inr w"
  shows "\<exists>ss. v = JArr (map JStr ss) \<and> w = v"
proof (cases v)
  case (JArr xs)
  with assms have ok: "list_all (\<lambda>r. \<not> isl r) (map (\<lambda>(i, x). under (Index i) (z_string x)) (enumerate 0 xs))"
    and w: "w = JArr (map projr (map (\<lambda>(i, x). under (Index i) (z_string x)) (enumerate 0 xs)))"
    by (auto simp: StringArraySchema_def z_array_def Let_def split: if_splits)
  from z_array_strings_only [OF ok] w JArr show ?thesis by auto
qed (use assms in \<open>simp_all add: StringArraySchema_def z_array_def\<close>)

lemma entry_result_bracket:
  assumes "CHR ''['' \<in> set entry" and "P entry = Inr v"
  shows "entry_result P flag entry = Inr ss \<longleftrightarrow> v = JArr (map JStr ss)"
proof
  assume "entry_result P flag entry = Inr ss"
  with assms obtain w where w: "StringArraySchema v = Inr w" and ss: "ss = string_elements w"
    by (auto simp: entry_result_def parseUnknown_def safeParse_def split: sum.splits)
  from StringArraySchema_Inr [OF w] ss show "v = JArr (map JStr ss)" by auto
next
  assume "v = JArr (map JStr ss)"
  with assms show "entry_result P flag entry = Inr ss"
    by (simp add: entry_result_def parseUnknown_def safeParse_def StringArraySchema_def z_array_strings)
qed

lemma block_failure:
  assumes "CLIOptions.block opts = Some choices"
    and "parseJSONArrayOrCommaSeparatedStrings P ''--block'' choices = Inl err"
    and "normalizeCLIConfig P U D
           (opts\<lparr>CLIOptions.block := None, CLIOptions.blockDomains := None, CLIOptions.uploadUrl := None\<rparr>) = Inr c"
  shows "normalizeCLIConfig P U D opts
           = Inl (Error (''Problem parsing \"--block\" options - '' @ error_message err))"
  using assms(3) assms(1,2)
  by (elim normalizeCLIConfig_InrE) (simp add: normalizeCLIConfig_eq choices_value_def)

lemma blockDomains_failure:
  assumes "CLIOptions.blockDomains opts = Some choices"
    and "parseJSONArrayOrCommaSeparatedStrings P ''--blockDomains'' choices = Inl err"
    and "normalizeCLIConfig P U D
           (opts\<lparr>CLIOptions.blockDomains := None, CLIOptions.uploadUrl := None\<rparr>) = Inr c"
  shows "normalizeCLIConfig P U D opts
           = Inl (Error (''Problem parsing \"--blockDomains\" options - '' @ error_message err))"
  using assms(3) assms(1,2)
  by (elim normalizeCLIConfig_InrE) (simp add: normalizeCLIConfig_eq choices_value_def)

lemma block_failure2:
  assumes "CLIOptions.block opts = Some choices"
    and "parseJSONArrayOrCommaSeparatedStrings P ''--block'' choices = Inl err"
  shows "normalizeCLIConfig2 P U D opts
           = Inl (Error (''Problem parsing \"--block\" options - '' @ error_message err))"
  using assms by (simp add: normalizeCLIConfig2_eq choices_value_def)

lemma blockDomains_failure2:
  assumes "CLIOptions.blockDomains opts = Some choices"
    and "parseJSONArrayOrCommaSeparatedStrings P ''--blockDomains'' choices = Inl err"
    and "normalizeCLIConfig2 P U D
           (opts\<lparr>CLIOptions.blockDomains := None, CLIOptions.uploadUrl := None\<rparr>) = Inr c"
  shows "normalizeCLIConfig2 P U D opts
           = Inl (Error (''Problem parsing \"--blockDomains\" options - '' @ error_message err))"
  using assms(3) assms(1,2)
  by (elim normalizeCLIConfig2_InrE) (simp add: normalizeCLIConfig2_eq choices_value_def)

lemma block_success:
  assumes "normalizeCLIConfig P U D opts = Inr cfg"
  shows "CLIOptions.block opts = Some choices \<Longrightarrow>
           parseJSONArrayOrCommaSeparatedStrings P ''--block'' choices = Inr (block cfg)"
    and "CLIOptions.blockDomains opts = Some choices \<Longrightarrow>
           parseJSONArrayOrCommaSeparatedStrings P ''--blockDomains'' choices = Inr (blockDomains cfg)"
  using assms
  by (elim normalizeCLIConfig_InrE; simp add: choices_value_def split: sum.splits)+

lemma block_success2:
  assumes "normalizeCLIConfig2 P U D opts = Inr cfg"
  shows "CLIOptions.block opts = Some choices \<Longrightarrow>
           parseJSONArrayOrCommaSeparatedStrings P ''--block'' choices = Inr (block cfg)"
    and "CLIOptions.blockDomains opts = Some choices \<Longrightarrow>
           parseJSONArrayOrCommaSeparatedStrings P ''--blockDomains'' choices = Inr (blockDomains cfg)"
  using assms
  by (elim normalizeCLIConfig2_InrE; simp add: choices_value_def split: sum.splits)+


text \<open>
  C9. A \<open>cpuThrottle\<close> of 0 is falsy, so the configuration has no \<open>cpuThrottle\<close>; a
  \<open>width\<close>, \<open>height\<close>, \<open>frameRate\<close> or \<open>timeout\<close> of 0 is kept, in both definitions.
\<close>

theorem cpuThrottle_zero_omitted:
  "(normalizeCLIConfig JSON_parse URL_ok DEFAULT_OPTIONS options = Inr config \<longrightarrow>
      (CLIOptions.cpuThrottle options = Some (Num 0) \<longrightarrow> cpuThrottle config = None)
    \<and> (CLIOptions.width options = Some (Num 0) \<longrightarrow> width config = Num 0)
    \<and> (CLIOptions.height options = Some (Num 0) \<longrightarrow> height config = Num 0)
    \<and> (CLIOptions.frameRate options = Some (Num 0) \<longrightarrow> frameRate config = Num 0)
    \<and> (CLIOptions.timeout options = Some (Num 0) \<longrightarrow> timeout config = Num 0))
   \<and> (normalizeCLIConfig2 JSON_parse URL_ok DEFAULT_OPTIONS options' = Inr config' \<longrightarrow>
      (CLIOptions.cpuThrottle options' = Some (Num 0) \<longrightarrow> cpuThrottle config' = None)
    \<and> (CLIOptions.width options' = Some (Num 0) \<longrightarrow> width config' = Num 0)
    \<and> (CLIOptions.height options' = Some (Num 0) \<longrightarrow> height config' = Num 0)
    \<and> (CLIOptions.frameRate options' = Some (Num 0) \<longrightarrow> frameRate config' = Num 0)
    \<and> (CLIOptions.timeout options' = Some (Num 0) \<longrightarrow> timeout config' = Num 0))"
proof (intro conjI impI)
  assume ok: "normalizeCLIConfig JSON_parse URL_ok DEFAULT_OPTIONS options = Inr config"
  {
    assume "CLIOptions.cpuThrottle options = Some (Num 0)"
    with ok show "cpuThrottle config = None"
      by (elim normalizeCLIConfig_InrE) (simp add: cpuThrottle_value_def)
  next
    assume "CLIOptions.width options = Some (Num 0)"
    with ok show "width config = Num 0"
      by (elim normalizeCLIConfig_InrE) (simp add: nullish_def)
  next
    assume "CLIOptions.height options = Some (Num 0)"
    with ok show "height config = Num 0"
      by (elim normalizeCLIConfig_InrE) (simp add: nullish_def)
  next
    assume "CLIOptions.frameRate options = Some (Num 0)"
    with ok show "frameRate config = Num 0"
      by (elim normalizeCLIConfig_InrE) (simp add: nullish_def)
  next
    assume "CLIOptions.timeout options = Some (Num 0)"
    with ok show "timeout config = Num 0"
      by (elim normalizeCLIConfig_InrE) (simp add: nullish_def)
  }
next
  assume ok: "normalizeCLIConfig2 JSON_parse URL_ok DEFAULT_OPTIONS options' = Inr config'"
  {
    assume "CLIOptions.cpuThrottle options' = Some (Num 0)"
    with ok show "cpuThrottle config' = None"
      by (elim normalizeCLIConfig2_InrE) (simp add: cpuThrottle_value_def)
  next
    assume "CLIOptions.width options' = Some (Num 0)"
    with ok show "width config' = Num 0"
      by (elim normalizeCLIConfig2_InrE) (simp add: nullish_def)
  next
    assume "CLIOptions.height options' = Some (Num 0)"
    with ok show "height config' = Num 0"
      by (elim normalizeCLIConfig2_InrE) (simp add: nullish_def)
  next
    assume "CLIOptions.frameRate options' = Some (Num 0)"
    with ok show "frameRate config' = Num 0"
      by (elim normalizeCLIConfig2_InrE) (simp add: nullish_def)
  next
    assume "CLIOptions.timeout options' = Some (Num 0)"
    with ok show "timeout config' = Num 0"
      by (elim normalizeCLIConfig2_InrE) (simp add: nullish_def)
  }
qed


lemmas value_defs = field_value_def delay_value_def passed_value_def choices_value_def
  uploadUrl_value_def cpuThrottle_value_def args_value_def delayUsing_value_def delayUsing_passed_def

theorem cpuThrottle_zero_omitted_witness:
  "map_sum id (\<lambda>c. (cpuThrottle c, width c, height c, frameRate c, timeout c))
     (normalizeCLIConfig ecma_JSON_parse has_scheme sample_defaults
        ((only_url ''https://example.com'')
           \<lparr>CLIOptions.width := Some (Num 0), CLIOptions.height := Some (Num 0),
            CLIOptions.frameRate := Some (Num 0), CLIOptions.timeout := Some (Num 0),
            CLIOptions.cpuThrottle := Some (Num 0)\<rparr>))
     = Inr (None, Num 0, Num 0, Num 0, Num 0)
   \<and> map_sum id (\<lambda>c. (cpuThrottle c, width c, height c, frameRate c, timeout c))
     (normalizeCLIConfig2 ecma_JSON_parse has_scheme sample_defaults
        ((only_url ''https://example.com'')
           \<lparr>CLIOptions.width := Some (Num 0), CLIOptions.height := Some (Num 0),
            CLIOptions.frameRate := Some (Num 0), CLIOptions.timeout := Some (Num 0),
            CLIOptions.cpuThrottle := Some (Num 0)\<rparr>))
     = Inr (None, Num 0, Num 0, Num 0, Num 0)"
proof -
  let ?o1 = "(only_url ''https://example.com'')
           \<lparr>CLIOptions.width := Some (Num 0), CLIOptions.height := Some (Num 0),
            CLIOptions.frameRate := Some (Num 0), CLIOptions.timeout := Some (Num 0),
            CLIOptions.cpuThrottle := Some (Num 0)\<rparr>"
  let ?o2 = "(only_url ''https://example.com'')
           \<lparr>CLIOptions.width := Some (Num 0), CLIOptions.height := Some (Num 0),
            CLIOptions.frameRate := Some (Num 0), CLIOptions.timeout := Some (Num 0),
            CLIOptions.cpuThrottle := Some (Num 0)\<rparr>"
  obtain c1 where ok1: "normalizeCLIConfig ecma_JSON_parse has_scheme sample_defaults ?o1 = Inr c1"
    by (simp add: normalizeCLIConfig_eq value_defs only_url_def)
  obtain c2 where ok2: "normalizeCLIConfig2 ecma_JSON_parse has_scheme sample_defaults ?o2 = Inr c2"
    by (simp add: normalizeCLIConfig2_eq value_defs only_url_def)
  have f: "CLIOptions.cpuThrottle ?o1 = Some (Num 0)" "CLIOptions.width ?o1 = Some (Num 0)"
      "CLIOptions.height ?o1 = Some (Num 0)" "CLIOptions.frameRate ?o1 = Some (Num 0)"
      "CLIOptions.timeout ?o1 = Some (Num 0)"
      "CLIOptions.cpuThrottle ?o2 = Some (Num 0)" "CLIOptions.width ?o2 = Some (Num 0)"
      "CLIOptions.height ?o2 = Some (Num 0)" "CLIOptions.frameRate ?o2 = Some (Num 0)"
      "CLIOptions.timeout ?o2 = Some (Num 0)"
    by simp_all
  from cpuThrottle_zero_omitted [of ecma_JSON_parse has_scheme sample_defaults ?o1 c1 ?o2 c2] ok1 ok2 f
  have "cpuThrottle c1 = None \<and> width c1 = Num 0 \<and> height c1 = Num 0 \<and> frameRate c1 = Num 0
        \<and> timeout c1 = Num 0 \<and> cpuThrottle c2 = None \<and> width c2 = Num 0 \<and> height c2 = Num 0
        \<and> frameRate c2 = Num 0 \<and> timeout c2 = Num 0"
    by blast
  with ok1 ok2 show ?thesis by simp
qed

lemma field_value_present:
  "field_value P flag (Some given) schema wrap old = Inr x \<Longrightarrow> truthy given \<Longrightarrow>
     \<exists>v. parseCLIOption P flag (ToString given) schema = Inr v \<and> x = wrap v"
  by (cases "parseCLIOption P flag (ToString given) schema") (simp_all add: field_value_def)


text \<open>
  C6, as the code has it. In the first definition \<open>delayUsing\<close> is overridden only by
  \<open>fulfill\<close> or \<open>continue\<close>: with any other supplied value the call gives what it gives
  without the option, so the default stays and no error comes of it. In the second
  definition every non-empty supplied value overrides the default, unchecked, and the
  empty string gives what the call gives without the option.
\<close>

theorem delayUsing_override:
  "(normalizeCLIConfig JSON_parse URL_ok DEFAULT_OPTIONS options = Inr config \<longrightarrow>
      delayUsing config =
        (if CLIOptions.delayUsing options = Some ''fulfill'' then ''fulfill''
         else if CLIOptions.delayUsing options = Some ''continue'' then ''continue''
         else delayUsing DEFAULT_OPTIONS))
   \<and> normalizeCLIConfig JSON_parse URL_ok DEFAULT_OPTIONS (options\<lparr>CLIOptions.delayUsing := Some d\<rparr>) =
       (if d = ''fulfill'' \<or> d = ''continue''
        then map_sum id (\<lambda>c. c\<lparr>delayUsing := d\<rparr>)
               (normalizeCLIConfig JSON_parse URL_ok DEFAULT_OPTIONS (options\<lparr>CLIOptions.delayUsing := None\<rparr>))
        else normalizeCLIConfig JSON_parse URL_ok DEFAULT_OPTIONS (options\<lparr>CLIOptions.delayUsing := None\<rparr>))
   \<and> (normalizeCLIConfig2 JSON_parse URL_ok DEFAULT_OPTIONS options' = Inr config' \<longrightarrow>
      delayUsing config' =
        (case CLIOptions.delayUsing options' of
           Some d2 \<Rightarrow> if d2 \<noteq> [] then d2 else delayUsing DEFAULT_OPTIONS
         | None \<Rightarrow> delayUsing DEFAULT_OPTIONS))
   \<and> normalizeCLIConfig2 JSON_parse URL_ok DEFAULT_OPTIONS (options'\<lparr>CLIOptions.delayUsing := Some d\<rparr>) =
       (if d \<noteq> []
        then map_sum id (\<lambda>c. c\<lparr>delayUsing := d\<rparr>)
               (normalizeCLIConfig2 JSON_parse URL_ok DEFAULT_OPTIONS (options'\<lparr>CLIOptions.delayUsing := None\<rparr>))
        else normalizeCLIConfig2 JSON_parse URL_ok DEFAULT_OPTIONS (options'\<lparr>CLIOptions.delayUsing := None\<rparr>))"
proof (intro conjI impI)
  assume "normalizeCLIConfig JSON_parse URL_ok DEFAULT_OPTIONS options = Inr config"
  then show "delayUsing config =
        (if CLIOptions.delayUsing options = Some ''fulfill'' then ''fulfill''
         else if CLIOptions.delayUsing options = Some ''continue'' then ''continue''
         else delayUsing DEFAULT_OPTIONS)"
    by (elim normalizeCLIConfig_InrE) (auto simp: delayUsing_value_def split: option.splits)
next
  show "normalizeCLIConfig JSON_parse URL_ok DEFAULT_OPTIONS (options\<lparr>CLIOptions.delayUsing := Some d\<rparr>) =
       (if d = ''fulfill'' \<or> d = ''continue''
        then map_sum id (\<lambda>c. c\<lparr>delayUsing := d\<rparr>)
               (normalizeCLIConfig JSON_parse URL_ok DEFAULT_OPTIONS (options\<lparr>CLIOptions.delayUsing := None\<rparr>))
        else normalizeCLIConfig JSON_parse URL_ok DEFAULT_OPTIONS (options\<lparr>CLIOptions.delayUsing := None\<rparr>))"
    by (simp add: normalizeCLIConfig_eq delayUsing_value_def map_sum_then_do delayUsing_update_early)
next
  assume "normalizeCLIConfig2 JSON_parse URL_ok DEFAULT_OPTIONS options' = Inr config'"
  then show "delayUsing config' =
        (case CLIOptions.delayUsing options' of
           Some d2 \<Rightarrow> if d2 \<noteq> [] then d2 else delayUsing DEFAULT_OPTIONS
         | None \<Rightarrow> delayUsing DEFAULT_OPTIONS)"
    by (elim normalizeCLIConfig2_InrE) (simp add: delayUsing_passed_def)
next
  show "normalizeCLIConfig2 JSON_parse URL_ok DEFAULT_OPTIONS (options'\<lparr>CLIOptions.delayUsing := Some d\<rparr>) =
       (if d \<noteq> []
        then map_sum id (\<lambda>c. c\<lparr>delayUsing := d\<rparr>)
               (normalizeCLIConfig2 JSON_parse URL_ok DEFAULT_OPTIONS (options'\<lparr>CLIOptions.delayUsing := None\<rparr>))
        else normalizeCLIConfig2 JSON_parse URL_ok DEFAULT_OPTIONS (options'\<lparr>CLIOptions.delayUsing := None\<rparr>))"
    by (simp add: normalizeCLIConfig2_eq delayUsing_passed_def map_sum_then_do delayUsing_update_early)
qed


theorem delayUsing_override_witness:
  "map_sum id delayUsing
     (normalizeCLIConfig ecma_JSON_parse has_scheme sample_defaults
        ((only_url ''https://example.com'')\<lparr>CLIOptions.delayUsing := Some ''fulfill''\<rparr>))
     = Inr ''fulfill''
   \<and> map_sum id delayUsing
     (normalizeCLIConfig2 ecma_JSON_parse has_scheme sample_defaults
        ((only_url ''https://example.com'')\<lparr>CLIOptions.delayUsing := Some ''bogus''\<rparr>))
     = Inr ''bogus''"
proof -
  let ?o1 = "(only_url ''https://example.com'')\<lparr>CLIOptions.delayUsing := Some ''fulfill''\<rparr>"
  let ?o2 = "(only_url ''https://example.com'')\<lparr>CLIOptions.delayUsing := Some ''bogus''\<rparr>"
  obtain c1 where ok1: "normalizeCLIConfig ecma_JSON_parse has_scheme sample_defaults ?o1 = Inr c1"
    by (simp add: normalizeCLIConfig_eq value_defs only_url_def)
  obtain c2 where ok2: "normalizeCLIConfig2 ecma_JSON_parse has_scheme sample_defaults ?o2 = Inr c2"
    by (simp add: normalizeCLIConfig2_eq value_defs only_url_def)
  from delayUsing_override [of ecma_JSON_parse has_scheme sample_defaults ?o1 c1 _ ?o2 c2] ok1 ok2
  have "delayUsing c1 = ''fulfill'' \<and> delayUsing c2 = ''bogus''"
    by simp
  with ok1 ok2 show ?thesis by simp
qed

theorem delayUsing_unchecked_in_second_definition:
  "map_sum id delayUsing
     (normalizeCLIConfig2 ecma_JSON_parse has_scheme sample_defaults
        ((only_url ''https://example.com'')\<lparr>CLIOptions.delayUsing := Some ''bogus''\<rparr>))
     = Inr ''bogus''
   \<and> delayUsing sample_defaults = ''continue''"
  by (simp add: normalizeCLIConfig2_eq value_defs only_url_def sample_defaults_def)


lemma structured_options_handling:
  "(normalizeCLIConfig JSON_parse URL_ok DEFAULT_OPTIONS options = Inr config \<longrightarrow>
      (\<forall>given. CLIOptions.cookies options = Some given \<and> truthy given \<longrightarrow>
         (\<exists>v. parseCLIOption JSON_parse ''--cookies'' (ToString given) CookiesSchema = Inr v
              \<and> cookies config = Some v))
    \<and> (\<forall>given. CLIOptions.headers options = Some given \<and> truthy given \<longrightarrow>
         (\<exists>v. parseCLIOption JSON_parse ''--headers'' (ToString given) HeadersSchema = Inr v
              \<and> headers config = Some v))
    \<and> (\<forall>given. CLIOptions.auth options = Some given \<and> truthy given \<longrightarrow>
         (\<exists>v. parseCLIOption JSON_parse ''--auth'' (ToString given) AuthSchema = Inr v
              \<and> auth config = v))
    \<and> (\<forall>given. CLIOptions.firefoxPrefs options = Some given \<and> truthy given \<longrightarrow>
         (\<exists>v. parseCLIOption JSON_parse ''--firefoxPrefs'' (ToString given) FirefoxPrefsSchema = Inr v
              \<and> firefoxPrefs config = Some v))
    \<and> (\<forall>given. CLIOptions.overrideHost options = Some given \<and> truthy given \<longrightarrow>
         (\<exists>v. parseCLIOption JSON_parse ''--overrideHost'' (ToString given) OverrideHostSchema = Inr v
              \<and> overrideHost config = Some v)))
   \<and> (normalizeCLIConfig2 JSON_parse URL_ok DEFAULT_OPTIONS options' = Inr config' \<longrightarrow>
      (\<forall>v. CLIOptions.cookies options' = Some v \<and> truthy v \<longrightarrow> cookies config' = Some v)
    \<and> (\<forall>v. CLIOptions.headers options' = Some v \<and> truthy v \<longrightarrow> headers config' = Some v)
    \<and> (\<forall>v. CLIOptions.auth options' = Some v \<and> truthy v \<longrightarrow> auth config' = v)
    \<and> (\<forall>v. CLIOptions.delay options' = Some v \<and> truthy v \<longrightarrow> delay config' = Some v)
    \<and> (\<forall>v. CLIOptions.firefoxPrefs options' = Some v \<and> truthy v \<longrightarrow> firefoxPrefs config' = Some v)
    \<and> (\<forall>v. CLIOptions.overrideHost options' = Some v \<and> truthy v \<longrightarrow> overrideHost config' = Some v))"
proof (intro conjI impI allI)
  assume ok: "normalizeCLIConfig JSON_parse URL_ok DEFAULT_OPTIONS options = Inr config"
  {
    fix given assume "CLIOptions.cookies options = Some given \<and> truthy given"
    with ok show "\<exists>v. parseCLIOption JSON_parse ''--cookies'' (ToString given) CookiesSchema = Inr v
              \<and> cookies config = Some v"
      by (elim normalizeCLIConfig_InrE) (auto dest!: field_value_present)
  next
    fix given assume "CLIOptions.headers options = Some given \<and> truthy given"
    with ok show "\<exists>v. parseCLIOption JSON_parse ''--headers'' (ToString given) HeadersSchema = Inr v
              \<and> headers config = Some v"
      by (elim normalizeCLIConfig_InrE) (auto dest!: field_value_present)
  next
    fix given assume "CLIOptions.auth options = Some given \<and> truthy given"
    with ok show "\<exists>v. parseCLIOption JSON_parse ''--auth'' (ToString given) AuthSchema = Inr v
              \<and> auth config = v"
      by (elim normalizeCLIConfig_InrE) (auto dest!: field_value_present)
  next
    fix given assume "CLIOptions.firefoxPrefs options = Some given \<and> truthy given"
    with ok show "\<exists>v. parseCLIOption JSON_parse ''--firefoxPrefs'' (ToString given) FirefoxPrefsSchema = Inr v
              \<and> firefoxPrefs config = Some v"
      by (elim normalizeCLIConfig_InrE) (auto dest!: field_value_present)
  next
    fix given assume "CLIOptions.overrideHost options = Some given \<and> truthy given"
    with ok show "\<exists>v. parseCLIOption JSON_parse ''--overrideHost'' (ToString given) OverrideHostSchema = Inr v
              \<and> overrideHost config = Some v"
      by (elim normalizeCLIConfig_InrE) (auto dest!: field_value_present)
  }
next
  assume ok: "normalizeCLIConfig2 JSON_parse URL_ok DEFAULT_OPTIONS options' = Inr config'"
  {
    fix v assume "CLIOptions.cookies options' = Some v \<and> truthy v"
    with ok show "cookies config' = Some v"
      by (elim normalizeCLIConfig2_InrE) (simp add: passed_value_def)
  next
    fix v assume "CLIOptions.headers options' = Some v \<and> truthy v"
    with ok show "headers config' = Some v"
      by (elim normalizeCLIConfig2_InrE) (simp add: passed_value_def)
  next
    fix v assume "CLIOptions.auth options' = Some v \<and> truthy v"
    with ok show "auth config' = v"
      by (elim normalizeCLIConfig2_InrE) (simp add: passed_value_def)
  next
    fix v assume "CLIOptions.delay options' = Some v \<and> truthy v"
    with ok show "delay config' = Some v"
      by (elim normalizeCLIConfig2_InrE) (simp add: passed_value_def)
  next
    fix v assume "CLIOptions.firefoxPrefs options' = Some v \<and> truthy v"
    with ok show "firefoxPrefs config' = Some v"
      by (elim normalizeCLIConfig2_InrE) (simp add: passed_value_def)
  next
    fix v assume "CLIOptions.overrideHost options' = Some v \<and> truthy v"
    with ok show "overrideHost config' = Some v"
      by (elim normalizeCLIConfig2_InrE) (simp add: passed_value_def)
  }
qed

lemma pretyped_object_is_invalid_JSON:
  assumes "JSON_parse ''[object Object]'' = Inl err"
    and "CLIOptions.cookies options = Some (JObj ps)"
  shows "normalizeCLIConfig JSON_parse URL_ok DEFAULT_OPTIONS options
           = Inl (Error (''Invalid JSON for \"--cookies\": '' @ error_message err))"
  using assms by (simp add: normalizeCLIConfig_eq field_value_def parseCLIOption_def)

lemma second_definition_copies_unchecked:
  "map_sum id cookies
     (normalizeCLIConfig2 ecma_JSON_parse has_scheme sample_defaults
        ((only_url ''https://example.com'')\<lparr>CLIOptions.cookies := Some (JStr ''[]'')\<rparr>))
     = Inr (Some (JStr ''[]''))
   \<and> parseCLIOption ecma_JSON_parse ''--cookies'' ''[]'' CookiesSchema = Inr (JArr [])
   \<and> map_sum id cookies
     (normalizeCLIConfig2 ecma_JSON_parse has_scheme sample_defaults
        ((only_url ''https://example.com'')\<lparr>CLIOptions.cookies := Some (JArr [JNum (Num 1)])\<rparr>))
     = Inr (Some (JArr [JNum (Num 1)]))
   \<and> isl (parseUnknown ''--cookies'' (JArr [JNum (Num 1)]) CookiesSchema)"
proof -
  have a: "parseCLIOption ecma_JSON_parse ''--cookies'' ''[]'' CookiesSchema = Inr (JArr [])"
    by code_simp
  have b: "isl (parseUnknown ''--cookies'' (JArr [JNum (Num 1)]) CookiesSchema)"
    by code_simp
  show ?thesis
    by (simp add: a b normalizeCLIConfig2_eq value_defs only_url_def)
qed

text \<open>
  C5. The first definition does not tell a pre-typed value from JSON text: it hands
  every truthy structured option to \<open>parseCLIOption\<close>. An array of cookie objects, or a
  single cookie object, is turned by \<open>JSON.parse\<close> into the text \<open>[object Object]\<close>
  and the call throws \<open>Invalid JSON for "--cookies"\<close>, although the value passes the
  cookie schema unchanged. A string is parsed and validated.
\<close>

theorem pretyped_cookies_rejected:
  "normalizeCLIConfig ecma_JSON_parse has_scheme sample_defaults
     ((only_url ''https://example.com'')
        \<lparr>CLIOptions.cookies := Some (JArr [JObj [(''name'', JStr ''a''), (''value'', JStr ''b''),
                                                 (''domain'', JStr ''d''), (''path'', JStr ''/'')]])\<rparr>)
     = Inl (Error ''Invalid JSON for \"--cookies\": Unexpected token in JSON'')
   \<and> normalizeCLIConfig ecma_JSON_parse has_scheme sample_defaults
     ((only_url ''https://example.com'')
        \<lparr>CLIOptions.cookies := Some (JObj [(''name'', JStr ''a''), (''value'', JStr ''b''),
                                           (''domain'', JStr ''d''), (''path'', JStr ''/'')])\<rparr>)
     = Inl (Error ''Invalid JSON for \"--cookies\": Unexpected token in JSON'')
   \<and> ToString (JArr [JObj [(''name'', JStr ''a''), (''value'', JStr ''b''),
                            (''domain'', JStr ''d''), (''path'', JStr ''/'')]]) = ''[object Object]''
   \<and> parseUnknown ''--cookies''
        (JArr [JObj [(''name'', JStr ''a''), (''value'', JStr ''b''),
                     (''domain'', JStr ''d''), (''path'', JStr ''/'')]]) CookiesSchema
     = Inr (JArr [JObj [(''name'', JStr ''a''), (''value'', JStr ''b''),
                        (''domain'', JStr ''d''), (''path'', JStr ''/'')]])
   \<and> map_sum id cookies
        (normalizeCLIConfig ecma_JSON_parse has_scheme sample_defaults
           ((only_url ''https://example.com'')
              \<lparr>CLIOptions.cookies :=
                 Some (JStr ''[{\"name\":\"a\",\"value\":\"b\",\"domain\":\"d\",\"path\":\"/\"}]'')\<rparr>))
     = Inr (Some (JArr [JObj [(''name'', JStr ''a''), (''value'', JStr ''b''),
                             (''domain'', JStr ''d''), (''path'', JStr ''/'')]]))"
proof -
  have rejected: "ecma_JSON_parse ''[object Object]'' = Inl (SyntaxError ''Unexpected token in JSON'')"
    by code_simp
  have valid: "parseUnknown ''--cookies''
        (JArr [JObj [(''name'', JStr ''a''), (''value'', JStr ''b''),
                     (''domain'', JStr ''d''), (''path'', JStr ''/'')]]) CookiesSchema
     = Inr (JArr [JObj [(''name'', JStr ''a''), (''value'', JStr ''b''),
                        (''domain'', JStr ''d''), (''path'', JStr ''/'')]])"
    by code_simp
  have parsed: "parseCLIOption ecma_JSON_parse ''--cookies''
        ''[{\"name\":\"a\",\"value\":\"b\",\"domain\":\"d\",\"path\":\"/\"}]'' CookiesSchema
     = Inr (JArr [JObj [(''name'', JStr ''a''), (''value'', JStr ''b''),
                        (''domain'', JStr ''d''), (''path'', JStr ''/'')]])"
    by code_simp
  have invalid: "parseCLIOption ecma_JSON_parse ''--cookies'' ''[object Object]'' CookiesSchema
     = Inl (Error ''Invalid JSON for \"--cookies\": Unexpected token in JSON'')"
    by (simp add: parseCLIOption_def rejected)
  show ?thesis
    by (simp add: valid parsed invalid normalizeCLIConfig_eq value_defs only_url_def)
qed

text \<open>
  C4. The delay option is not validated. The first definition stores whatever
  \<open>JSON.parse\<close> returns for the text, the second whatever value it is given: a delay
  map with a string value is accepted by both.
\<close>

theorem delay_not_validated:
  "map_sum id delay
     (normalizeCLIConfig ecma_JSON_parse has_scheme sample_defaults
        ((only_url ''https://example.com'')\<lparr>CLIOptions.delay := Some (JStr ''{\".css$\": \"slow\"}'')\<rparr>))
     = Inr (Some (JObj [(''.css$'', JStr ''slow'')]))
   \<and> map_sum id delay
     (normalizeCLIConfig2 ecma_JSON_parse has_scheme sample_defaults
        ((only_url ''https://example.com'')\<lparr>CLIOptions.delay := Some (JObj [(''.css$'', JStr ''slow'')])\<rparr>))
     = Inr (Some (JObj [(''.css$'', JStr ''slow'')]))"
proof -
  have a: "ecma_JSON_parse ''{\".css$\": \"slow\"}'' = Inr (JObj [(''.css$'', JStr ''slow'')])"
    by code_simp
  show ?thesis
    by (simp add: a normalizeCLIConfig_eq normalizeCLIConfig2_eq value_defs only_url_def)
qed


text \<open>
  C7. For \<open>block\<close> and \<open>blockDomains\<close>: when every entry has a result, the list is the
  concatenation of the results in order; otherwise the error of the first entry without
  one leaves the function. An entry with a \<open>[\<close> that parses as JSON has a result
  exactly when the parsed value is an array of strings, and the result is these strings.
  In both definitions of the normalizer a successful call stores that list, and an
  error from the list is thrown again as \<open>Problem parsing "--<flag>" options - \<close>
  followed by the error's message, once the options handled before are accepted.
\<close>

theorem block_entries:
  "((\<forall>g \<in> set choices. \<not> isl (entry_result JSON_parse flagName g)) \<longrightarrow>
      parseJSONArrayOrCommaSeparatedStrings JSON_parse flagName choices
        = Inr (concat (map (\<lambda>g. projr (entry_result JSON_parse flagName g)) choices)))
   \<and> ((\<forall>g \<in> set ok. \<not> isl (entry_result JSON_parse flagName g))
        \<and> entry_result JSON_parse flagName bad = Inl err \<longrightarrow>
      parseJSONArrayOrCommaSeparatedStrings JSON_parse flagName (ok @ bad # rest) = Inl err)
   \<and> (CHR ''['' \<in> set entry \<and> JSON_parse entry = Inr v \<longrightarrow>
      (entry_result JSON_parse flagName entry = Inr strings \<longleftrightarrow> v = JArr (map JStr strings)))
   \<and> (normalizeCLIConfig JSON_parse URL_ok DEFAULT_OPTIONS options = Inr config \<longrightarrow>
      (\<forall>cs. CLIOptions.block options = Some cs \<longrightarrow>
         parseJSONArrayOrCommaSeparatedStrings JSON_parse ''--block'' cs = Inr (block config))
    \<and> (\<forall>cs. CLIOptions.blockDomains options = Some cs \<longrightarrow>
         parseJSONArrayOrCommaSeparatedStrings JSON_parse ''--blockDomains'' cs = Inr (blockDomains config)))
   \<and> (CLIOptions.block options = Some cs
        \<and> parseJSONArrayOrCommaSeparatedStrings JSON_parse ''--block'' cs = Inl err
        \<and> normalizeCLIConfig JSON_parse URL_ok DEFAULT_OPTIONS
             (options\<lparr>CLIOptions.block := None, CLIOptions.blockDomains := None,
                      CLIOptions.uploadUrl := None\<rparr>) = Inr other \<longrightarrow>
      normalizeCLIConfig JSON_parse URL_ok DEFAULT_OPTIONS options
        = Inl (Error (''Problem parsing \"--block\" options - '' @ error_message err)))
   \<and> (CLIOptions.blockDomains options = Some cs
        \<and> parseJSONArrayOrCommaSeparatedStrings JSON_parse ''--blockDomains'' cs = Inl err
        \<and> normalizeCLIConfig JSON_parse URL_ok DEFAULT_OPTIONS
             (options\<lparr>CLIOptions.blockDomains := None, CLIOptions.uploadUrl := None\<rparr>) = Inr other \<longrightarrow>
      normalizeCLIConfig JSON_parse URL_ok DEFAULT_OPTIONS options
        = Inl (Error (''Problem parsing \"--blockDomains\" options - '' @ error_message err)))
   \<and> (normalizeCLIConfig2 JSON_parse URL_ok DEFAULT_OPTIONS options' = Inr config' \<longrightarrow>
      (\<forall>cs. CLIOptions.block options' = Some cs \<longrightarrow>
         parseJSONArrayOrCommaSeparatedStrings JSON_parse ''--block'' cs = Inr (block config'))
    \<and> (\<forall>cs. CLIOptions.blockDomains options' = Some cs \<longrightarrow>
         parseJSONArrayOrCommaSeparatedStrings JSON_parse ''--blockDomains'' cs = Inr (blockDomains config')))
   \<and> (CLIOptions.block options' = Some cs
        \<and> parseJSONArrayOrCommaSeparatedStrings JSON_parse ''--block'' cs = Inl err \<longrightarrow>
      normalizeCLIConfig2 JSON_parse URL_ok DEFAULT_OPTIONS options'
        = Inl (Error (''Problem parsing \"--block\" options - '' @ error_message err)))
   \<and> (CLIOptions.blockDomains options' = Some cs
        \<and> parseJSONArrayOrCommaSeparatedStrings JSON_parse ''--blockDomains'' cs = Inl err
        \<and> normalizeCLIConfig2 JSON_parse URL_ok DEFAULT_OPTIONS
             (options'\<lparr>CLIOptions.blockDomains := None, CLIOptions.uploadUrl := None\<rparr>) = Inr other \<longrightarrow>
      normalizeCLIConfig2 JSON_parse URL_ok DEFAULT_OPTIONS options'
        = Inl (Error (''Problem parsing \"--blockDomains\" options - '' @ error_message err)))"
proof (intro conjI impI allI)
  assume "\<forall>g \<in> set choices. \<not> isl (entry_result JSON_parse flagName g)"
  then show "parseJSONArrayOrCommaSeparatedStrings JSON_parse flagName choices
        = Inr (concat (map (\<lambda>g. projr (entry_result JSON_parse flagName g)) choices))"
    by (simp add: parseJSONArrayOrCommaSeparatedStrings_def parse_choices_all_ok)
next
  assume "(\<forall>g \<in> set ok. \<not> isl (entry_result JSON_parse flagName g))
        \<and> entry_result JSON_parse flagName bad = Inl err"
  then show "parseJSONArrayOrCommaSeparatedStrings JSON_parse flagName (ok @ bad # rest) = Inl err"
    by (simp add: parseJSONArrayOrCommaSeparatedStrings_def parse_choices_first_failure)
next
  assume "CHR ''['' \<in> set entry \<and> JSON_parse entry = Inr v"
  then show "entry_result JSON_parse flagName entry = Inr strings \<longleftrightarrow> v = JArr (map JStr strings)"
    by (simp add: entry_result_bracket)
next
  fix cs assume "normalizeCLIConfig JSON_parse URL_ok DEFAULT_OPTIONS options = Inr config"
    and "CLIOptions.block options = Some cs"
  then show "parseJSONArrayOrCommaSeparatedStrings JSON_parse ''--block'' cs = Inr (block config)"
    by (rule block_success)
next
  fix cs assume "normalizeCLIConfig JSON_parse URL_ok DEFAULT_OPTIONS options = Inr config"
    and "CLIOptions.blockDomains options = Some cs"
  then show "parseJSONArrayOrCommaSeparatedStrings JSON_parse ''--blockDomains'' cs = Inr (blockDomains config)"
    by (rule block_success)
next
  assume "CLIOptions.block options = Some cs
        \<and> parseJSONArrayOrCommaSeparatedStrings JSON_parse ''--block'' cs = Inl err
        \<and> normalizeCLIConfig JSON_parse URL_ok DEFAULT_OPTIONS
             (options\<lparr>CLIOptions.block := None, CLIOptions.blockDomains := None,
                      CLIOptions.uploadUrl := None\<rparr>) = Inr other"
  then show "normalizeCLIConfig JSON_parse URL_ok DEFAULT_OPTIONS options
        = Inl (Error (''Problem parsing \"--block\" options - '' @ error_message err))"
    using block_failure by blast
next
  assume "CLIOptions.blockDomains options = Some cs
        \<and> parseJSONArrayOrCommaSeparatedStrings JSON_parse ''--blockDomains'' cs = Inl err
        \<and> normalizeCLIConfig JSON_parse URL_ok DEFAULT_OPTIONS
             (options\<lparr>CLIOptions.blockDomains := None, CLIOptions.uploadUrl := None\<rparr>) = Inr other"
  then show "normalizeCLIConfig JSON_parse URL_ok DEFAULT_OPTIONS options
        = Inl (Error (''Problem parsing \"--blockDomains\" options - '' @ error_message err))"
    using blockDomains_failure by blast
next
  fix cs assume "normalizeCLIConfig2 JSON_parse URL_ok DEFAULT_OPTIONS options' = Inr config'"
    and "CLIOptions.block options' = Some cs"
  then show "parseJSONArrayOrCommaSeparatedStrings JSON_parse ''--block'' cs = Inr (block config')"
    by (rule block_success2)
next
  fix cs assume "normalizeCLIConfig2 JSON_parse URL_ok DEFAULT_OPTIONS options' = Inr config'"
    and "CLIOptions.blockDomains options' = Some cs"
  then show "parseJSONArrayOrCommaSeparatedStrings JSON_parse ''--blockDomains'' cs = Inr (blockDomains config')"
    by (rule block_success2)
next
  assume "CLIOptions.block options' = Some cs
        \<and> parseJSONArrayOrCommaSeparatedStrings JSON_parse ''--block'' cs = Inl err"
  then show "normalizeCLIConfig2 JSON_parse URL_ok DEFAULT_OPTIONS options'
        = Inl (Error (''Problem parsing \"--block\" options - '' @ error_message err))"
    using block_failure2 by blast
next
  assume "CLIOptions.blockDomains options' = Some cs
        \<and> parseJSONArrayOrCommaSeparatedStrings JSON_parse ''--blockDomains'' cs = Inl err
        \<and> normalizeCLIConfig2 JSON_parse URL_ok DEFAULT_OPTIONS
             (options'\<lparr>CLIOptions.blockDomains := None, CLIOptions.uploadUrl := None\<rparr>) = Inr other"
  then show "normalizeCLIConfig2 JSON_parse URL_ok DEFAULT_OPTIONS options'
        = Inl (Error (''Problem parsing \"--blockDomains\" options - '' @ error_message err))"
    using blockDomains_failure2 by blast
qed

theorem block_entries_witness:
  "parseJSONArrayOrCommaSeparatedStrings ecma_JSON_parse ''--block'' [''a,b'', ''[\"c\",\"d\"]'']
     = Inr [''a'', ''b'', ''c'', ''d'']
   \<and> parseJSONArrayOrCommaSeparatedStrings ecma_JSON_parse ''--block'' [''a'', ''[ 'one', 'two' ]'']
     = Inl (SyntaxError ''Unexpected token in JSON'')
   \<and> normalizeCLIConfig ecma_JSON_parse has_scheme sample_defaults
        ((only_url ''https://example.com'')\<lparr>CLIOptions.block := Some [''[ 'one', 'two' ]'']\<rparr>)
     = Inl (Error ''Problem parsing \"--block\" options - Unexpected token in JSON'')
   \<and> normalizeCLIConfig2 ecma_JSON_parse has_scheme sample_defaults
        ((only_url ''https://example.com'')\<lparr>CLIOptions.block := Some [''[ 'one', 'two' ]'']\<rparr>)
     = Inl (Error ''Problem parsing \"--block\" options - Unexpected token in JSON'')
   \<and> map_sum id block
        (normalizeCLIConfig ecma_JSON_parse has_scheme sample_defaults
           ((only_url ''https://example.com'')\<lparr>CLIOptions.block := Some [''a,b'', ''[\"c\",\"d\"]'']\<rparr>))
     = Inr [''a'', ''b'', ''c'', ''d'']"
proof -
  let ?good = "[''a,b'', ''[\"c\",\"d\"]'']"
  let ?bad = "''[ 'one', 'two' ]''"
  let ?o1 = "(only_url ''https://example.com'')\<lparr>CLIOptions.block := Some [?bad]\<rparr>"
  let ?o2 = "(only_url ''https://example.com'')\<lparr>CLIOptions.block := Some [?bad]\<rparr>"
  let ?o3 = "(only_url ''https://example.com'')\<lparr>CLIOptions.block := Some ?good\<rparr>"
  have e1: "entry_result ecma_JSON_parse ''--block'' ''a,b'' = Inr [''a'', ''b'']"
    by code_simp
  have e2: "entry_result ecma_JSON_parse ''--block'' ''[\"c\",\"d\"]'' = Inr [''c'', ''d'']"
    by code_simp
  have e3: "entry_result ecma_JSON_parse ''--block'' ''a'' = Inr [''a'']"
    by code_simp
  have e4: "entry_result ecma_JSON_parse ''--block'' ?bad = Inl (SyntaxError ''Unexpected token in JSON'')"
    by code_simp
  have all_ok: "\<forall>g \<in> set ?good. \<not> isl (entry_result ecma_JSON_parse ''--block'' g)"
    by (simp add: e1 e2)
  have first_bad: "(\<forall>g \<in> set [''a'']. \<not> isl (entry_result ecma_JSON_parse ''--block'' g))
                   \<and> entry_result ecma_JSON_parse ''--block'' ?bad = Inl (SyntaxError ''Unexpected token in JSON'')"
    by (simp add: e3 e4)
  have only_bad: "(\<forall>g \<in> set []. \<not> isl (entry_result ecma_JSON_parse ''--block'' g))
                   \<and> entry_result ecma_JSON_parse ''--block'' ?bad = Inl (SyntaxError ''Unexpected token in JSON'')"
    by (simp add: e4)
  have r1: "parseJSONArrayOrCommaSeparatedStrings ecma_JSON_parse ''--block'' ?good
              = Inr [''a'', ''b'', ''c'', ''d'']"
    using block_entries [where JSON_parse = ecma_JSON_parse and flagName = "''--block''"
                           and choices = ?good, THEN conjunct1, THEN mp, OF all_ok]
    by (simp add: e1 e2)
  have r2: "parseJSONArrayOrCommaSeparatedStrings ecma_JSON_parse ''--block'' [''a'', ?bad]
              = Inl (SyntaxError ''Unexpected token in JSON'')"
    using block_entries [where JSON_parse = ecma_JSON_parse and flagName = "''--block''"
                           and ok = "[''a'']" and bad = ?bad and rest = "[]",
                         THEN conjunct2, THEN conjunct1, THEN mp, OF first_bad]
    by simp
  have r0: "parseJSONArrayOrCommaSeparatedStrings ecma_JSON_parse ''--block'' [?bad]
              = Inl (SyntaxError ''Unexpected token in JSON'')"
    using block_entries [where JSON_parse = ecma_JSON_parse and flagName = "''--block''"
                           and ok = "[]" and bad = ?bad and rest = "[]",
                         THEN conjunct2, THEN conjunct1, THEN mp, OF only_bad]
    by simp
  obtain other where rest_ok:
    "normalizeCLIConfig ecma_JSON_parse has_scheme sample_defaults
       (?o1\<lparr>CLIOptions.block := None, CLIOptions.blockDomains := None, CLIOptions.uploadUrl := None\<rparr>)
     = Inr other"
    by (simp add: normalizeCLIConfig_eq value_defs only_url_def)
  have h3: "CLIOptions.block ?o1 = Some [?bad]
            \<and> parseJSONArrayOrCommaSeparatedStrings ecma_JSON_parse ''--block'' [?bad]
                = Inl (SyntaxError ''Unexpected token in JSON'')
            \<and> normalizeCLIConfig ecma_JSON_parse has_scheme sample_defaults
                 (?o1\<lparr>CLIOptions.block := None, CLIOptions.blockDomains := None,
                       CLIOptions.uploadUrl := None\<rparr>) = Inr other"
    using r0 rest_ok by simp
  have r3: "normalizeCLIConfig ecma_JSON_parse has_scheme sample_defaults ?o1
              = Inl (Error ''Problem parsing \"--block\" options - Unexpected token in JSON'')"
    using block_entries [where JSON_parse = ecma_JSON_parse and URL_ok = has_scheme
                           and DEFAULT_OPTIONS = sample_defaults and options = ?o1
                           and cs = "[?bad]" and err = "SyntaxError ''Unexpected token in JSON''"
                           and other = other,
                         THEN conjunct2, THEN conjunct2, THEN conjunct2, THEN conjunct2,
                         THEN conjunct1, THEN mp, OF h3]
    by simp
  have h4: "CLIOptions.block ?o2 = Some [?bad]
            \<and> parseJSONArrayOrCommaSeparatedStrings ecma_JSON_parse ''--block'' [?bad]
                = Inl (SyntaxError ''Unexpected token in JSON'')"
    using r0 by simp
  have r4: "normalizeCLIConfig2 ecma_JSON_parse has_scheme sample_defaults ?o2
              = Inl (Error ''Problem parsing \"--block\" options - Unexpected token in JSON'')"
    using block_entries [where JSON_parse = ecma_JSON_parse and URL_ok = has_scheme
                           and DEFAULT_OPTIONS = sample_defaults and options' = ?o2
                           and cs = "[?bad]" and err = "SyntaxError ''Unexpected token in JSON''",
                         THEN conjunct2, THEN conjunct2, THEN conjunct2, THEN conjunct2,
                         THEN conjunct2, THEN conjunct2, THEN conjunct2,
                         THEN conjunct1, THEN mp, OF h4]
    by simp
  obtain c3 where ok3: "normalizeCLIConfig ecma_JSON_parse has_scheme sample_defaults ?o3 = Inr c3"
    by (simp add: normalizeCLIConfig_eq value_defs only_url_def r1)
  have h5: "CLIOptions.block ?o3 = Some ?good"
    by simp
  have "parseJSONArrayOrCommaSeparatedStrings ecma_JSON_parse ''--block'' ?good = Inr (block c3)"
    using block_entries [where JSON_parse = ecma_JSON_parse and URL_ok = has_scheme
                           and DEFAULT_OPTIONS = sample_defaults and options = ?o3 and config = c3,
                         THEN conjunct2, THEN conjunct2, THEN conjunct2, THEN conjunct1,
                         THEN mp, OF ok3, THEN conjunct1, THEN spec, THEN mp, OF h5] .
  with r1 have r5: "block c3 = [''a'', ''b'', ''c'', ''d'']"
    by simp
  show ?thesis
    unfolding ok3 r1 r2 r3 r4 by (simp add: r5)
qed


end
